theory Spec2Isabelle
  imports Complex_Main "HOL-Library.Char_ord" "HOL-Library.List_Lexorder"
begin

section \<open>The synthetic-row generator of \<^verbatim>\<open>generador_datos_sinteticos.py\<close>\<close>

text \<open>
  The development embeds the function \<^verbatim>\<open>main\<close> of the generator.  A pandas data frame is
  a list of labelled columns; the chunk that the loop body repairs is kept row by row, each
  row a dictionary from column labels to values, and every statement of the loop body that
  acts on a whole column is a map over the rows.

  Conventions.
  \<^item> A \<^verbatim>\<open>float64\<close> is a real number; arithmetic is exact.  A value that is no finite
    real (a NaN, or the infinity a division by zero would give) is \<open>None\<close> in a row.
  \<^item> The seed is what \<^verbatim>\<open>read_csv\<close> returns: \<^verbatim>\<open>int64\<close>, \<^verbatim>\<open>float64\<close> and text columns.
  \<^item> The draws of \<^verbatim>\<open>np.random.multivariate_normal\<close> are an input of the model: \<open>rng i c\<close>
    is the component for column \<open>c\<close> of the \<open>i\<close>-th vector drawn in the run.  The mean
    vector and the covariance matrix only parametrise these draws and are not computed.
  \<^item> A row is a dictionary, so a label names one value.  When one of the four sampled hour
    columns of the seed is a text column, \<^verbatim>\<open>cols_a_modelar\<close> lists its label twice and pandas
    keeps two columns under it; such seeds are outside the model, and the properties of a
    run are stated for well-formed seeds (\<open>seed_ok\<close> below).
  \<^item> Reading the seed, writing the output and the time of day are not modelled; the
    output file is the seed table followed by the appended rows.
\<close>

subsection \<open>Data frames, cells and errors\<close>

datatype column = IntCol "int list" | FloatCol "real list" | StrCol "string list"

type_synonym dataframe = "(string \<times> column) list"

datatype cell = IntV int | FloatV real | StrV string

datatype error = KeyError string | TypeError | ValueError | ZeroDivisionError

definition bindE :: "error + 'a \<Rightarrow> ('a \<Rightarrow> error + 'b) \<Rightarrow> error + 'b" where
  "bindE m f = (case m of Inl e \<Rightarrow> Inl e | Inr x \<Rightarrow> f x)"

fun mapM :: "('a \<Rightarrow> error + 'b) \<Rightarrow> 'a list \<Rightarrow> error + 'b list" where
  "mapM f [] = Inr []"
| "mapM f (x # xs) = bindE (f x) (\<lambda>y. bindE (mapM f xs) (\<lambda>ys. Inr (y # ys)))"

text \<open>The chunk \<^verbatim>\<open>df_chunk\<close>: its column labels in order of creation, and its rows.\<close>

record 'v frame =
  labels :: "string list"
  rows :: "(string \<rightharpoonup> 'v) list"

text \<open>\<^verbatim>\<open>df[col] = e\<close> for an expression \<open>e\<close> computed row by row; a new label goes last.\<close>

definition add_label :: "string \<Rightarrow> string list \<Rightarrow> string list" where
  "add_label col ls = (if col \<in> set ls then ls else ls @ [col])"

definition assign :: "string \<Rightarrow> ((string \<rightharpoonup> 'v) \<Rightarrow> 'v option) \<Rightarrow> 'v frame \<Rightarrow> 'v frame" where
  "assign col e df =
     \<lparr>labels = add_label col (labels df), rows = map (\<lambda>r. r(col := e r)) (rows df)\<rparr>"

text \<open>\<^verbatim>\<open>df.loc[mask, col] = e\<close>: only the rows the mask selects are written; in a column
  created by the statement the other rows hold NaN.\<close>

definition loc_assign ::
  "bool list \<Rightarrow> string \<Rightarrow> ((string \<rightharpoonup> 'v) \<Rightarrow> 'v option) \<Rightarrow> 'v frame \<Rightarrow> 'v frame" where
  "loc_assign msk col e df =
     \<lparr>labels = add_label col (labels df),
      rows = map2 (\<lambda>m r. if m then r(col := e r) else r) msk (rows df)\<rparr>"

text \<open>\<^verbatim>\<open>df[col]\<close> read as a column, and \<^verbatim>\<open>df[col] = values\<close> for a computed column.\<close>

definition get_col :: "string \<Rightarrow> 'v frame \<Rightarrow> error + 'v option list" where
  "get_col col df =
     (if col \<in> set (labels df) then Inr (map (\<lambda>r. r col) (rows df)) else Inl (KeyError col))"

definition set_col :: "string \<Rightarrow> 'v option list \<Rightarrow> 'v frame \<Rightarrow> 'v frame" where
  "set_col col vals df =
     \<lparr>labels = add_label col (labels df), rows = map2 (\<lambda>r v. r(col := v)) (rows df) vals\<rparr>"

subsection \<open>Numeric primitives of numpy and pandas\<close>

text \<open>\<^verbatim>\<open>np.rint\<close>: round to the nearest integer, a tie to the even one.\<close>

definition rint :: "real \<Rightarrow> int" where
  "rint x = (let f = \<lfloor>x\<rfloor>; d = x - of_int f in
             if d < 1/2 then f else if 1/2 < d then f + 1 else if even f then f else f + 1)"

text \<open>\<^verbatim>\<open>Series.round(decimals)\<close>: scale, round to an integer, scale back.\<close>

definition np_round :: "nat \<Rightarrow> real \<Rightarrow> real" where
  "np_round decimals x = of_int (rint (x * 10 ^ decimals)) / 10 ^ decimals"

text \<open>\<^verbatim>\<open>Series.clip(lower, upper)\<close> orders its two scalar bounds before it clips.\<close>

definition pd_clip :: "'a::linorder \<Rightarrow> 'a \<Rightarrow> 'a \<Rightarrow> 'a" where
  "pd_clip lower upper x = (let l = min lower upper; u = max lower upper in min u (max l x))"

definition clip_lower :: "real \<Rightarrow> real \<Rightarrow> real" where
  "clip_lower lower x = max lower x"

text \<open>Float division.  A zero divisor gives an infinity or a NaN, which is no real.\<close>

definition np_divide :: "real \<Rightarrow> real \<Rightarrow> real option" where
  "np_divide a b = (if b = 0 then None else Some (a / b))"

definition times_opt :: "real option \<Rightarrow> real option \<Rightarrow> real option" where
  "times_opt a b = (case a of None \<Rightarrow> None | Some x \<Rightarrow> (case b of None \<Rightarrow> None | Some y \<Rightarrow> Some (x * y)))"

text \<open>\<^verbatim>\<open>range(a, b)\<close> of Python.\<close>

definition py_range :: "int \<Rightarrow> int \<Rightarrow> int list" where
  "py_range a b = map (\<lambda>k. a + int k) [0..<nat (b - a)]"

text \<open>\<^verbatim>\<open>np.select(condlist, choicelist, default)\<close>: per element the choice of the first
  condition that holds, the default when none does.\<close>

fun np_select :: "bool list list \<Rightarrow> 'a list \<Rightarrow> 'a list \<Rightarrow> 'a list" where
  "np_select (c # cs) (v # vs) d = map2 (\<lambda>b x. if b then v else x) c (np_select cs vs d)"
| "np_select _ _ d = d"

text \<open>\<^verbatim>\<open>.round().astype(int)\<close> on one value: a NaN cannot be cast, text cannot be rounded.\<close>

fun round_astype_int :: "cell option \<Rightarrow> error + int" where
  "round_astype_int None = Inl ValueError"
| "round_astype_int (Some (FloatV x)) = Inr (rint x)"
| "round_astype_int (Some (IntV i)) = Inr i"
| "round_astype_int (Some (StrV s)) = Inl TypeError"

text \<open>A comparison of one value with a number: false on NaN, a \<^verbatim>\<open>TypeError\<close> on text.\<close>

fun compare :: "(real \<Rightarrow> bool) \<Rightarrow> cell option \<Rightarrow> error + bool" where
  "compare p None = Inr False"
| "compare p (Some (FloatV x)) = Inr (p x)"
| "compare p (Some (IntV i)) = Inr (p (of_int i))"
| "compare p (Some (StrV s)) = Inl TypeError"

subsection \<open>The label encoder\<close>

text \<open>\<^verbatim>\<open>LabelEncoder.fit\<close> keeps the distinct values in sorted order as \<^verbatim>\<open>classes_\<close>;
  \<^verbatim>\<open>inverse_transform\<close> raises \<^verbatim>\<open>ValueError\<close> on a code that is no index into them.\<close>

definition fit_classes :: "string list \<Rightarrow> string list" where
  "fit_classes values = sort (remdups values)"

definition inverse_transform :: "string list \<Rightarrow> int list \<Rightarrow> error + string list" where
  "inverse_transform classes y =
     (if list_all (\<lambda>code. 0 \<le> code \<and> code < int (length classes)) y
      then Inr (map (\<lambda>code. classes ! nat code) y) else Inl ValueError)"

subsection \<open>Analysis of the seed (lines 18 to 56)\<close>

fun is_numeric :: "column \<Rightarrow> bool" where
  "is_numeric (IntCol xs) = True"
| "is_numeric (FloatCol xs) = True"
| "is_numeric (StrCol xs) = False"

definition columnas_ordenadas :: "dataframe \<Rightarrow> string list" where
  "columnas_ordenadas df_seed = map fst df_seed"

definition time_vars_independent :: "string list" where
  "time_vars_independent =
     [''Study_Hours_Per_Day'', ''Extracurricular_Hours_Per_Day'',
      ''Sleep_Hours_Per_Day'', ''Social_Hours_Per_Day'']"

definition cols_numericas :: "dataframe \<Rightarrow> string list" where
  "cols_numericas df_seed = map fst (filter (\<lambda>(c, col). is_numeric col) df_seed)"

definition other_numerics :: "dataframe \<Rightarrow> string list" where
  "other_numerics df_seed =
     filter (\<lambda>c. c \<notin> set time_vars_independent
                 \<and> c \<noteq> ''Physical_Activity_Hours_Per_Day''
                 \<and> c \<noteq> ''Student_ID'') (cols_numericas df_seed)"

definition cols_categoricas :: "dataframe \<Rightarrow> string list" where
  "cols_categoricas df_seed =
     (let cs = map fst (filter (\<lambda>(c, col). \<not> is_numeric col) df_seed)
      in if ''Stress_Level'' \<in> set cs then remove1 ''Stress_Level'' cs else cs)"

text \<open>The dictionary \<^verbatim>\<open>encoders\<close>: one fitted encoder for each categorical column.\<close>

definition encoders :: "dataframe \<Rightarrow> string \<rightharpoonup> string list" where
  "encoders df_seed col =
     (if col \<in> set (cols_categoricas df_seed)
      then (case map_of df_seed col of
              Some (StrCol values) \<Rightarrow> Some (fit_classes values)
            | _ \<Rightarrow> None)
      else None)"

definition cols_a_modelar :: "dataframe \<Rightarrow> string list" where
  "cols_a_modelar df_seed =
     time_vars_independent @ other_numerics df_seed @ cols_categoricas df_seed"

subsection \<open>The output file and the state of the loop\<close>

text \<open>\<^verbatim>\<open>OUTPUT_CSV\<close>: the seed table written with its header at line 61, then the rows
  appended batch by batch at line 132.  An appended row lists its fields in the order of
  the header; \<open>None\<close> is an empty field.\<close>

record csv_file =
  seed_table :: dataframe
  appended :: "(string \<times> cell option) list list"

text \<open>The value of \<^verbatim>\<open>current_id\<close>: an integer, or a float (the maximum of a float column, or
  the NaN that the maximum of an empty column is), on which \<^verbatim>\<open>range\<close> raises.\<close>

datatype id_val = IdInt int | IdFloat

record gen_state =
  rows_generated :: int
  chunk_counter :: int
  current_id :: id_val
  output_csv :: csv_file

text \<open>How \<^verbatim>\<open>main\<close> ends: it raises, leaving the output file as it then is (\<open>None\<close>: never
  written), or it returns.\<close>

datatype outcome = Raised error "csv_file option" | Completed gen_state

subsection \<open>One batch (lines 73 to 136)\<close>

text \<open>Lines 76 and 77: the draws, labelled by the modelled columns.  \<open>drawn\<close> vectors have
  been drawn before.\<close>

definition sample_chunk ::
  "(nat \<Rightarrow> string \<Rightarrow> real) \<Rightarrow> string list \<Rightarrow> nat \<Rightarrow> nat \<Rightarrow> real frame" where
  "sample_chunk rng cols drawn n =
     \<lparr>labels = cols,
      rows = map (\<lambda>j c. if c \<in> set cols then Some (rng (drawn + j) c) else None) [0..<n]\<rparr>"

text \<open>Lines 81 and 82: no negative hours in the four sampled columns.\<close>

definition evitar_negativos :: "real frame \<Rightarrow> real frame" where
  "evitar_negativos df =
     fold (\<lambda>col. assign col (\<lambda>r. map_option (clip_lower 0) (r col))) time_vars_independent df"

text \<open>Line 85: the row sums, which skip NaN.\<close>

definition sum_axis1 :: "string list \<Rightarrow> (string \<rightharpoonup> real) \<Rightarrow> real" where
  "sum_axis1 cols r = sum_list (map (\<lambda>c. case r c of None \<Rightarrow> 0 | Some x \<Rightarrow> x) cols)"

definition calcular_suma :: "real frame \<Rightarrow> real frame" where
  "calcular_suma df = assign ''Sum_Hours'' (\<lambda>r. Some (sum_axis1 time_vars_independent r)) df"

text \<open>Lines 90 to 94 on one row that the overflow mask selects: the factor is computed
  once, the four columns are scaled by it, and no time is left for physical activity.\<close>

definition rescale_row :: "(string \<rightharpoonup> real) \<Rightarrow> (string \<rightharpoonup> real)" where
  "rescale_row r =
     (let factor = Option.bind (r ''Sum_Hours'') (np_divide 24)
      in (fold (\<lambda>col r'. r'(col := times_opt (r' col) factor)) time_vars_independent r)
           (''Physical_Activity_Hours_Per_Day'' \<mapsto> 0))"

text \<open>Lines 88 to 98.  A comparison with NaN is false.\<close>

definition corregir_desbordamientos :: "real frame \<Rightarrow> real frame" where
  "corregir_desbordamientos df =
     (let mask_overflow =
            map (\<lambda>r. case r ''Sum_Hours'' of None \<Rightarrow> False | Some s \<Rightarrow> 24 < s) (rows df);
          df1 = (if list_ex (\<lambda>m. m) mask_overflow
                 then \<lparr>labels = add_label ''Physical_Activity_Hours_Per_Day'' (labels df),
                       rows = map2 (\<lambda>m r. if m then rescale_row r else r) mask_overflow (rows df)\<rparr>
                 else df);
          mask_ok = map Not mask_overflow
      in loc_assign mask_ok ''Physical_Activity_Hours_Per_Day''
           (\<lambda>r. map_option (\<lambda>s. 24 - s) (r ''Sum_Hours'')) df1)"

text \<open>Lines 101 to 103: one decimal for the five hour columns.\<close>

definition redondeo_estetico :: "real frame \<Rightarrow> real frame" where
  "redondeo_estetico df =
     fold (\<lambda>col. assign col (\<lambda>r. map_option (np_round 1) (r col)))
       (time_vars_independent @ [''Physical_Activity_Hours_Per_Day'']) df"

text \<open>Line 106.\<close>

definition limpiar_gpa :: "real frame \<Rightarrow> error + real frame" where
  "limpiar_gpa df =
     bindE (get_col ''GPA'' df) (\<lambda>gpa.
       Inr (set_col ''GPA'' (map (map_option (\<lambda>x. np_round 2 (pd_clip 0 4 x))) gpa) df))"

text \<open>Up to line 106 every column of the chunk is \<^verbatim>\<open>float64\<close>; from line 107 on there are
  integer and text columns as well.\<close>

definition to_cells :: "real frame \<Rightarrow> cell frame" where
  "to_cells df = \<lparr>labels = labels df, rows = map (\<lambda>r c. map_option FloatV (r c)) (rows df)\<rparr>"

text \<open>Line 107.\<close>

definition limpiar_age :: "cell frame \<Rightarrow> error + cell frame" where
  "limpiar_age df =
     bindE (get_col ''Age'' df) (\<lambda>age.
     bindE (mapM round_astype_int age) (\<lambda>ints.
       Inr (set_col ''Age'' (map (\<lambda>i. Some (IntV i)) ints) df)))"

text \<open>Lines 111 to 114 for one categorical column.\<close>

definition revertir_categoria :: "dataframe \<Rightarrow> string \<Rightarrow> cell frame \<Rightarrow> error + cell frame" where
  "revertir_categoria df_seed col df =
     bindE (get_col col df) (\<lambda>vals.
     bindE (mapM round_astype_int vals) (\<lambda>codes.
       (case encoders df_seed col of
          None \<Rightarrow> Inl (KeyError col)
        | Some classes \<Rightarrow>
            (let max_idx = int (length classes) - 1;
                 clipped = map (pd_clip 0 max_idx) codes
             in bindE (inverse_transform classes clipped) (\<lambda>strs.
                  Inr (set_col col (map (\<lambda>s. Some (StrV s)) strs) df))))))"

fun foldM :: "('a \<Rightarrow> 'b \<Rightarrow> error + 'b) \<Rightarrow> 'a list \<Rightarrow> 'b \<Rightarrow> error + 'b" where
  "foldM f [] s = Inr s"
| "foldM f (x # xs) s = bindE (f x s) (foldM f xs)"

text \<open>Lines 110 to 114.\<close>

definition revertir_categorias :: "dataframe \<Rightarrow> cell frame \<Rightarrow> error + cell frame" where
  "revertir_categorias df_seed df = foldM (revertir_categoria df_seed) (cols_categoricas df_seed) df"

text \<open>Lines 117 to 122: the stress rule, on the repaired hours.\<close>

definition regla_de_negocio :: "cell frame \<Rightarrow> error + cell frame" where
  "regla_de_negocio df =
     bindE (get_col ''Sleep_Hours_Per_Day'' df) (\<lambda>sleep.
     bindE (mapM (compare (\<lambda>x. x < 6)) sleep) (\<lambda>sleep_lt_6.
     bindE (get_col ''Study_Hours_Per_Day'' df) (\<lambda>study.
     bindE (mapM (compare (\<lambda>x. 8 < x)) study) (\<lambda>study_gt_8.
     bindE (mapM (compare (\<lambda>x. 6 \<le> x)) sleep) (\<lambda>sleep_ge_6.
     bindE (mapM (compare (\<lambda>x. x < 6)) study) (\<lambda>study_lt_6.
       (let condiciones = [map2 (\<or>) sleep_lt_6 study_gt_8, map2 (\<and>) sleep_ge_6 study_lt_6];
            opciones = [''High'', ''Low''];
            stress = np_select condiciones opciones (replicate (length (rows df)) ''Moderate'')
        in Inr (set_col ''Stress_Level'' (map (\<lambda>s. Some (StrV s)) stress) df))))))))"

text \<open>Line 129: the columns of the seed, in the order of the seed.\<close>

definition reordenar ::
  "string list \<Rightarrow> cell frame \<Rightarrow> error + (string \<times> cell option) list list" where
  "reordenar cols df =
     (case filter (\<lambda>c. c \<notin> set (labels df)) cols of
        [] \<Rightarrow> Inr (map (\<lambda>r. map (\<lambda>c. (c, r c)) cols) (rows df))
      | c # cs \<Rightarrow> Inl (KeyError c))"

text \<open>Lines 73 to 136.  A negative size makes the sampler raise.\<close>

definition generate_chunk ::
  "dataframe \<Rightarrow> int \<Rightarrow> int \<Rightarrow> (nat \<Rightarrow> string \<Rightarrow> real) \<Rightarrow> gen_state \<Rightarrow> error + gen_state" where
  "generate_chunk df_seed TARGET_NEW_ROWS CHUNK_SIZE rng st =
     (let current_chunk_size = min CHUNK_SIZE (TARGET_NEW_ROWS - rows_generated st)
      in if current_chunk_size < 0 then Inl ValueError
         else
           (let datos_raw = sample_chunk rng (cols_a_modelar df_seed)
                              (nat (rows_generated st)) (nat current_chunk_size);
                df_time = redondeo_estetico (corregir_desbordamientos
                            (calcular_suma (evitar_negativos datos_raw)))
            in bindE (limpiar_gpa df_time) (\<lambda>df_gpa.
               bindE (limpiar_age (to_cells df_gpa)) (\<lambda>df_age.
               bindE (revertir_categorias df_seed df_age) (\<lambda>df_cat.
               bindE (regla_de_negocio df_cat) (\<lambda>df_stress.
                 (case current_id st of
                    IdFloat \<Rightarrow> Inl TypeError
                  | IdInt i \<Rightarrow>
                      (let df_id = set_col ''Student_ID''
                                     (map (\<lambda>k. Some (IntV k)) (py_range i (i + current_chunk_size)))
                                     df_stress
                       in bindE (reordenar (columnas_ordenadas df_seed) df_id) (\<lambda>batch.
                            Inr \<lparr>rows_generated = rows_generated st + current_chunk_size,
                                 chunk_counter = chunk_counter st + 1,
                                 current_id = IdInt (i + current_chunk_size),
                                 output_csv = (output_csv st)
                                   \<lparr>appended := appended (output_csv st) @ batch\<rparr>\<rparr>)))))))))"

subsection \<open>The generation loop (lines 71 to 145) and \<^verbatim>\<open>main\<close>\<close>

text \<open>After each batch the progress log divides by the observed speed, which is zero when
  no row has been generated so far (lines 140 and 141); the elapsed time itself is taken to
  be positive.\<close>

partial_function (option) generation_loop ::
  "dataframe \<Rightarrow> int \<Rightarrow> int \<Rightarrow> (nat \<Rightarrow> string \<Rightarrow> real) \<Rightarrow> gen_state \<Rightarrow> outcome option" where
  "generation_loop df_seed TARGET_NEW_ROWS CHUNK_SIZE rng st =
     (if rows_generated st < TARGET_NEW_ROWS
      then (case generate_chunk df_seed TARGET_NEW_ROWS CHUNK_SIZE rng st of
              Inl e \<Rightarrow> Some (Raised e (Some (output_csv st)))
            | Inr st' \<Rightarrow>
                if rows_generated st' = 0
                then Some (Raised ZeroDivisionError (Some (output_csv st')))
                else generation_loop df_seed TARGET_NEW_ROWS CHUNK_SIZE rng st')
      else Some (Completed st))"

text \<open>Line 69: \<^verbatim>\<open>df_seed['Student_ID'].max() + 1\<close>.\<close>

fun max_plus_one :: "column \<Rightarrow> error + id_val" where
  "max_plus_one (IntCol ids) = (if ids = [] then Inr IdFloat else Inr (IdInt (Max (set ids) + 1)))"
| "max_plus_one (FloatCol ids) = Inr IdFloat"
| "max_plus_one (StrCol ids) = (if ids = [] then Inr IdFloat else Inl TypeError)"

text \<open>\<^verbatim>\<open>main\<close>.  Line 55 selects the modelled columns from the seed and raises on a label
  the seed does not have; line 61 writes the seed; line 69 reads the identifiers.\<close>

definition main ::
  "dataframe \<Rightarrow> int \<Rightarrow> int \<Rightarrow> (nat \<Rightarrow> string \<Rightarrow> real) \<Rightarrow> outcome option" where
  "main df_seed TARGET_NEW_ROWS CHUNK_SIZE rng =
     (case filter (\<lambda>c. c \<notin> set (columnas_ordenadas df_seed)) (cols_a_modelar df_seed) of
        c # cs \<Rightarrow> Some (Raised (KeyError c) None)
      | [] \<Rightarrow>
          (let written = \<lparr>seed_table = df_seed, appended = []\<rparr>
           in case map_of df_seed ''Student_ID'' of
                None \<Rightarrow> Some (Raised (KeyError ''Student_ID'') (Some written))
              | Some ids \<Rightarrow>
                  (case max_plus_one ids of
                     Inl e \<Rightarrow> Some (Raised e (Some written))
                   | Inr first_id \<Rightarrow>
                       generation_loop df_seed TARGET_NEW_ROWS CHUNK_SIZE rng
                         \<lparr>rows_generated = 0, chunk_counter = 0, current_id = first_id,
                          output_csv = written\<rparr>)))"

section \<open>The batch seen row by row\<close>

text \<open>
  The statements of the loop body act on whole columns.  What they do to one row is
  written out here, stage by stage; the lemmas below show that a batch is the map of these
  row functions over the draws.  The functions \<open>to_code\<close> and \<open>holds\<close> read a cell that is
  known to be numeric.
\<close>

subsection \<open>The repair of the hours on one row (lines 81 to 103)\<close>

definition clip_row :: "(string \<rightharpoonup> real) \<Rightarrow> (string \<rightharpoonup> real)" where
  "clip_row r = fold (\<lambda>col r'. r'(col := map_option (clip_lower 0) (r' col))) time_vars_independent r"

definition sum_row :: "(string \<rightharpoonup> real) \<Rightarrow> (string \<rightharpoonup> real)" where
  "sum_row r = r(''Sum_Hours'' \<mapsto> sum_axis1 time_vars_independent r)"

text \<open>The overflow mask of line 88 on one row, and lines 88 to 98 on that row.\<close>

definition overflow :: "(string \<rightharpoonup> real) \<Rightarrow> bool" where
  "overflow r = (case r ''Sum_Hours'' of None \<Rightarrow> False | Some s \<Rightarrow> 24 < s)"

definition fix_row :: "(string \<rightharpoonup> real) \<Rightarrow> (string \<rightharpoonup> real)" where
  "fix_row r =
     (if overflow r then rescale_row r
      else r(''Physical_Activity_Hours_Per_Day'' := map_option (\<lambda>s. 24 - s) (r ''Sum_Hours'')))"

definition round_row :: "(string \<rightharpoonup> real) \<Rightarrow> (string \<rightharpoonup> real)" where
  "round_row r =
     fold (\<lambda>col r'. r'(col := map_option (np_round 1) (r' col)))
       (time_vars_independent @ [''Physical_Activity_Hours_Per_Day'']) r"

definition time_row :: "(string \<rightharpoonup> real) \<Rightarrow> (string \<rightharpoonup> real)" where
  "time_row r = round_row (fix_row (sum_row (clip_row r)))"

text \<open>The factor by which lines 90 to 92 multiply the hours of a row whose clipped hours sum
  to \<open>s\<close>; a row that does not overflow is left as it is.\<close>

definition scale :: "real \<Rightarrow> real" where
  "scale s = (if 24 < s then 24 / s else 1)"

subsection \<open>The later stages on one row (lines 106 to 126)\<close>

text \<open>A cell is numeric when it holds a number.  On a numeric cell \<open>round_astype_int\<close> and
  \<open>compare\<close> return, and \<open>to_code\<close> and \<open>holds\<close> are what they return; on any other cell
  the two are never used.\<close>

definition numeric :: "cell option \<Rightarrow> bool" where
  "numeric v = (case v of Some (FloatV x) \<Rightarrow> True | Some (IntV i) \<Rightarrow> True | _ \<Rightarrow> False)"

definition to_code :: "cell option \<Rightarrow> int" where
  "to_code v = (case round_astype_int v of Inr i \<Rightarrow> i | Inl e \<Rightarrow> 0)"

definition holds :: "(real \<Rightarrow> bool) \<Rightarrow> cell option \<Rightarrow> bool" where
  "holds p v = (case compare p v of Inr b \<Rightarrow> b | Inl e \<Rightarrow> False)"

definition gpa_row :: "(string \<rightharpoonup> real) \<Rightarrow> (string \<rightharpoonup> real)" where
  "gpa_row r = r(''GPA'' := map_option (\<lambda>x. np_round 2 (pd_clip 0 4 x)) (r ''GPA''))"

definition cells_row :: "(string \<rightharpoonup> real) \<Rightarrow> (string \<rightharpoonup> cell)" where
  "cells_row r = (\<lambda>c. map_option FloatV (r c))"

definition age_row :: "(string \<rightharpoonup> cell) \<Rightarrow> (string \<rightharpoonup> cell)" where
  "age_row r = r(''Age'' \<mapsto> IntV (to_code (r ''Age'')))"

text \<open>Lines 112 to 114 on one code: clip it into the range of the classes, then look it up.\<close>

definition decode :: "string list \<Rightarrow> int \<Rightarrow> string" where
  "decode classes code = classes ! nat (pd_clip 0 (int (length classes) - 1) code)"

definition cat_row :: "dataframe \<Rightarrow> string \<Rightarrow> (string \<rightharpoonup> cell) \<Rightarrow> (string \<rightharpoonup> cell)" where
  "cat_row df_seed col r =
     (case encoders df_seed col of None \<Rightarrow> r
      | Some classes \<Rightarrow> r(col \<mapsto> StrV (decode classes (to_code (r col)))))"

definition stress_of :: "cell option \<Rightarrow> cell option \<Rightarrow> string" where
  "stress_of sleep study =
     (if holds (\<lambda>x. x < 6) sleep \<or> holds (\<lambda>x. 8 < x) study then ''High''
      else if holds (\<lambda>x. 6 \<le> x) sleep \<and> holds (\<lambda>x. x < 6) study then ''Low''
      else ''Moderate'')"

definition stress_row :: "(string \<rightharpoonup> cell) \<Rightarrow> (string \<rightharpoonup> cell)" where
  "stress_row r =
     r(''Stress_Level'' \<mapsto> StrV (stress_of (r ''Sleep_Hours_Per_Day'') (r ''Study_Hours_Per_Day'')))"

subsection \<open>Well-formed seeds\<close>

text \<open>
  The properties of a run are stated for seeds that follow the data model: the labels are
  distinct, the columns have one length and at least two rows (with fewer the sample
  covariance is NaN, and so are the draws), the four sampled hour columns and the
  physical-activity column are numeric, the identifiers are integers, and there are columns
  \<^verbatim>\<open>GPA\<close> and \<^verbatim>\<open>Age\<close>, which lines 106 and 107 read.  The label column is not required.
\<close>

fun col_len :: "column \<Rightarrow> nat" where
  "col_len (IntCol xs) = length xs"
| "col_len (FloatCol xs) = length xs"
| "col_len (StrCol xs) = length xs"

definition numeric_column :: "dataframe \<Rightarrow> string \<Rightarrow> bool" where
  "numeric_column df c = (case map_of df c of None \<Rightarrow> False | Some col \<Rightarrow> is_numeric col)"

definition seed_ok :: "dataframe \<Rightarrow> bool" where
  "seed_ok df_seed \<longleftrightarrow>
     distinct (map fst df_seed)
   \<and> list_all (\<lambda>(c, col). 2 \<le> col_len col \<and> col_len col = col_len (snd (hd df_seed))) df_seed
   \<and> list_all (numeric_column df_seed)
        (time_vars_independent @ [''Physical_Activity_Hours_Per_Day''])
   \<and> (case map_of df_seed ''Student_ID'' of Some (IntCol ids) \<Rightarrow> True | _ \<Rightarrow> False)
   \<and> ''GPA'' \<in> set (map fst df_seed) \<and> ''Age'' \<in> set (map fst df_seed)"

subsection \<open>The rows of a run\<close>

text \<open>The \<open>k\<close>-th vector drawn in the run, as a row of the chunk; that row after all repair
  stages; and the row appended to the output for it, with its identifier and its fields in
  the order of the seed.\<close>

definition sample_row :: "(nat \<Rightarrow> string \<Rightarrow> real) \<Rightarrow> string list \<Rightarrow> nat \<Rightarrow> (string \<rightharpoonup> real)" where
  "sample_row rng cols k = (\<lambda>c. if c \<in> set cols then Some (rng k c) else None)"

definition repaired_row :: "dataframe \<Rightarrow> (nat \<Rightarrow> string \<Rightarrow> real) \<Rightarrow> nat \<Rightarrow> (string \<rightharpoonup> cell)" where
  "repaired_row df_seed rng k =
     stress_row (fold (cat_row df_seed) (cols_categoricas df_seed)
       (age_row (cells_row (gpa_row (time_row (sample_row rng (cols_a_modelar df_seed) k))))))"

definition generated_row ::
  "dataframe \<Rightarrow> (nat \<Rightarrow> string \<Rightarrow> real) \<Rightarrow> nat \<Rightarrow> int \<Rightarrow> (string \<times> cell option) list" where
  "generated_row df_seed rng k ident =
     map (\<lambda>c. (c, ((repaired_row df_seed rng k)(''Student_ID'' \<mapsto> IntV ident)) c))
       (columnas_ordenadas df_seed)"

text \<open>The rows for the draws \<open>a, \<dots>, b - 1\<close>, where the identifier counter starts at \<open>first\<close>.\<close>

definition batch_rows ::
  "dataframe \<Rightarrow> (nat \<Rightarrow> string \<Rightarrow> real) \<Rightarrow> int \<Rightarrow> nat \<Rightarrow> nat \<Rightarrow> (string \<times> cell option) list list" where
  "batch_rows df_seed rng first a b =
     map (\<lambda>k. generated_row df_seed rng k (first + int k)) [a..<b]"

text \<open>The rows that a run has appended to the output file, however the run ended.\<close>

definition generated_rows :: "outcome option \<Rightarrow> (string \<times> cell option) list list" where
  "generated_rows res =
     (case res of
        Some (Completed st) \<Rightarrow> appended (output_csv st)
      | Some (Raised e (Some file)) \<Rightarrow> appended file
      | _ \<Rightarrow> [])"

text \<open>The rule of section 4.5 of the specification, in its words: \<^verbatim>\<open>High\<close> if sleep is below 6
  or study above 8; else \<^verbatim>\<open>Low\<close> if sleep is at least 6 and study below 6; else
  \<^verbatim>\<open>Moderate\<close>.\<close>

definition spec_stress_rule :: "real \<Rightarrow> real \<Rightarrow> string" where
  "spec_stress_rule sleep study =
     (if sleep < 6 \<or> study > 8 then ''High''
      else if sleep \<ge> 6 \<and> study < 6 then ''Low''
      else ''Moderate'')"

subsection \<open>Examples\<close>

text \<open>A seed of two rows, and draws whose hours are 10, 10, 6 and 6 in every row (the
  overflow example of the specification).\<close>

definition example_seed :: dataframe where
  "example_seed =
     [(''Student_ID'', IntCol [1, 2]),
      (''Study_Hours_Per_Day'', FloatCol [4, 5]),
      (''Extracurricular_Hours_Per_Day'', FloatCol [3, 2]),
      (''Sleep_Hours_Per_Day'', FloatCol [8, 7]),
      (''Social_Hours_Per_Day'', FloatCol [2, 3]),
      (''Physical_Activity_Hours_Per_Day'', FloatCol [7, 7]),
      (''GPA'', FloatCol [3, 4]),
      (''Age'', IntCol [20, 21]),
      (''Gender'', StrCol [''Male'', ''Female'']),
      (''Stress_Level'', StrCol [''Low'', ''Low''])]"

definition example_rng :: "nat \<Rightarrow> string \<Rightarrow> real" where
  "example_rng k c =
     (if c = ''Study_Hours_Per_Day'' \<or> c = ''Extracurricular_Hours_Per_Day'' then 10
      else if c = ''Sleep_Hours_Per_Day'' \<or> c = ''Social_Hours_Per_Day'' then 6
      else if c = ''Age'' then 20 else 3)"

subsection \<open>The repaired hours in closed form\<close>

text \<open>A sampled hour of the \<open>k\<close>-th draw after line 82, the sum of line 85, and the five hours
  that the row has after line 103.\<close>

definition clipped :: "(nat \<Rightarrow> string \<Rightarrow> real) \<Rightarrow> nat \<Rightarrow> string \<Rightarrow> real" where
  "clipped rng k c = max 0 (rng k c)"

definition clipped_sum :: "(nat \<Rightarrow> string \<Rightarrow> real) \<Rightarrow> nat \<Rightarrow> real" where
  "clipped_sum rng k =
     clipped rng k ''Study_Hours_Per_Day'' + clipped rng k ''Extracurricular_Hours_Per_Day''
     + clipped rng k ''Sleep_Hours_Per_Day'' + clipped rng k ''Social_Hours_Per_Day''"

definition repaired_hour :: "(nat \<Rightarrow> string \<Rightarrow> real) \<Rightarrow> nat \<Rightarrow> string \<Rightarrow> real" where
  "repaired_hour rng k c = np_round 1 (clipped rng k c * scale (clipped_sum rng k))"

definition repaired_physical :: "(nat \<Rightarrow> string \<Rightarrow> real) \<Rightarrow> nat \<Rightarrow> real" where
  "repaired_physical rng k =
     np_round 1 (if 24 < clipped_sum rng k then 0 else 24 - clipped_sum rng k)"

subsection \<open>Runs that return, and seeds that lack a column\<close>





section \<open>Properties of the stages\<close>

subsection \<open>Errors, zipped maps and frames\<close>

lemma bindE_Inr [simp]: "bindE (Inr x) f = f x"
  by (simp add: bindE_def)

lemma bindE_Inl [simp]: "bindE (Inl e) f = Inl e"
  by (simp add: bindE_def)

lemma mapM_Inr: "(\<And>x. x \<in> set xs \<Longrightarrow> f x = Inr (g x)) \<Longrightarrow> mapM f xs = Inr (map g xs)"
  by (induction xs) simp_all

lemma map2_same: "map2 h (map f xs) xs = map (\<lambda>x. h (f x) x) xs"
  by (induction xs) simp_all

lemma map2_same2: "map2 h xs (map f xs) = map (\<lambda>x. h x (f x)) xs"
  by (induction xs) simp_all

lemma map2_maps: "map2 h (map f xs) (map g xs) = map (\<lambda>x. h (f x) (g x)) xs"
  by (induction xs) simp_all

lemma set_add_label [simp]: "set (add_label c ls) = insert c (set ls)"
  by (auto simp: add_label_def)

lemma rows_assign [simp]: "rows (assign col e df) = map (\<lambda>r. r(col := e r)) (rows df)"
  by (simp add: assign_def)

lemma labels_assign [simp]: "labels (assign col e df) = add_label col (labels df)"
  by (simp add: assign_def)

lemma rows_fold_assign:
  "rows (fold (\<lambda>col. assign col (e col)) cols df) = map (fold (\<lambda>col r. r(col := e col r)) cols) (rows df)"
  by (induction cols arbitrary: df) (simp_all add: comp_def)

lemma set_labels_fold_assign:
  "set (labels (fold (\<lambda>col. assign col (e col)) cols df)) = set cols \<union> set (labels df)"
  by (induction cols arbitrary: df) auto

subsection \<open>Rounding\<close>

lemma rint_bounds: "\<bar>of_int (rint x) - x\<bar> \<le> 1/2"
  unfolding rint_def Let_def by (auto; linarith)

lemma rint_nonneg: "0 \<le> x \<Longrightarrow> 0 \<le> rint x"
  unfolding rint_def Let_def by (auto; linarith)

lemma np_round_1_error: "\<bar>np_round 1 x - x\<bar> \<le> 1/20"
proof -
  have "\<bar>of_int (rint (x * 10)) - x * 10\<bar> \<le> 1/2" by (rule rint_bounds)
  then show ?thesis by (simp add: np_round_def field_simps abs_le_iff)
qed

lemma np_round_nonneg: "0 \<le> x \<Longrightarrow> 0 \<le> np_round d x"
  by (simp add: np_round_def rint_nonneg)

lemma np_round_zero [simp]: "np_round d 0 = 0"
  by (simp add: np_round_def rint_def)

subsection \<open>The repair of the hours is a map over the rows\<close>

lemma rows_evitar_negativos: "rows (evitar_negativos df) = map clip_row (rows df)"
  unfolding evitar_negativos_def clip_row_def by (rule rows_fold_assign)

lemma rows_calcular_suma: "rows (calcular_suma df) = map sum_row (rows df)"
  by (simp add: calcular_suma_def sum_row_def)

lemma rows_redondeo_estetico: "rows (redondeo_estetico df) = map round_row (rows df)"
  unfolding redondeo_estetico_def round_row_def by (rule rows_fold_assign)

lemma map2_mask_none:
  "\<not> list_ex (\<lambda>m. m) (map p xs) \<Longrightarrow> map (\<lambda>x. if p x then f x else x) xs = xs"
  by (induction xs) simp_all

lemma rows_corregir_desbordamientos:
  "rows (corregir_desbordamientos df) = map fix_row (rows df)"
proof -
  let ?p = "\<lambda>r. case r ''Sum_Hours'' of None \<Rightarrow> False | Some s \<Rightarrow> 24 < s"
  let ?g = "\<lambda>r. if ?p r then rescale_row r else r"
  have p: "?p = overflow" by (simp add: overflow_def fun_eq_iff)
  have 1: "rows (if list_ex (\<lambda>m. m) (map ?p (rows df))
                 then \<lparr>labels = add_label ''Physical_Activity_Hours_Per_Day'' (labels df),
                       rows = map2 (\<lambda>m r. if m then rescale_row r else r) (map ?p (rows df)) (rows df)\<rparr>
                 else df) = map ?g (rows df)"
    by (simp add: map2_same map2_mask_none)
  show ?thesis
    unfolding corregir_desbordamientos_def Let_def loc_assign_def
    apply (simp only: 1 frame.simps)
    apply (simp add: map2_maps comp_def)
    apply (simp add: fix_row_def p [symmetric])
    done
qed

lemma rows_time_phase:
  "rows (redondeo_estetico (corregir_desbordamientos (calcular_suma (evitar_negativos df))))
     = map time_row (rows df)"
  by (simp add: rows_redondeo_estetico rows_corregir_desbordamientos rows_calcular_suma
      rows_evitar_negativos time_row_def)

lemma set_labels_time_phase:
  "set (labels (redondeo_estetico (corregir_desbordamientos (calcular_suma (evitar_negativos df)))))
     = set (labels df) \<union> set time_vars_independent
        \<union> {''Sum_Hours'', ''Physical_Activity_Hours_Per_Day''}"
  unfolding redondeo_estetico_def evitar_negativos_def calcular_suma_def
    corregir_desbordamientos_def Let_def loc_assign_def
  by (auto simp: set_labels_fold_assign)

subsection \<open>The repaired hours of a row\<close>

lemma presum_row:
  assumes "r ''Study_Hours_Per_Day'' = Some x1" "r ''Extracurricular_Hours_Per_Day'' = Some x2"
    "r ''Sleep_Hours_Per_Day'' = Some x3" "r ''Social_Hours_Per_Day'' = Some x4"
  shows "sum_row (clip_row r) =
     r(''Study_Hours_Per_Day'' \<mapsto> max 0 x1, ''Extracurricular_Hours_Per_Day'' \<mapsto> max 0 x2,
       ''Sleep_Hours_Per_Day'' \<mapsto> max 0 x3, ''Social_Hours_Per_Day'' \<mapsto> max 0 x4,
       ''Sum_Hours'' \<mapsto> max 0 x1 + max 0 x2 + max 0 x3 + max 0 x4)"
  using assms
  by (simp add: sum_row_def clip_row_def time_vars_independent_def sum_axis1_def clip_lower_def
      add.assoc)

lemma time_row_hours:
  assumes "r ''Study_Hours_Per_Day'' = Some x1" "r ''Extracurricular_Hours_Per_Day'' = Some x2"
    "r ''Sleep_Hours_Per_Day'' = Some x3" "r ''Social_Hours_Per_Day'' = Some x4"
  defines "s \<equiv> max 0 x1 + max 0 x2 + max 0 x3 + max 0 x4"
  shows "time_row r ''Study_Hours_Per_Day'' = Some (np_round 1 (max 0 x1 * scale s))"
    and "time_row r ''Extracurricular_Hours_Per_Day'' = Some (np_round 1 (max 0 x2 * scale s))"
    and "time_row r ''Sleep_Hours_Per_Day'' = Some (np_round 1 (max 0 x3 * scale s))"
    and "time_row r ''Social_Hours_Per_Day'' = Some (np_round 1 (max 0 x4 * scale s))"
    and "time_row r ''Physical_Activity_Hours_Per_Day'' = Some (np_round 1 (if 24 < s then 0 else 24 - s))"
  unfolding time_row_def presum_row [OF assms(1-4)] s_def
  by (simp_all add: round_row_def fix_row_def overflow_def rescale_row_def time_vars_independent_def
      np_divide_def times_opt_def scale_def)

lemma time_row_other:
  assumes "c \<notin> set time_vars_independent" "c \<noteq> ''Sum_Hours''" "c \<noteq> ''Physical_Activity_Hours_Per_Day''"
  shows "time_row r c = r c"
  using assms
  by (simp add: time_row_def round_row_def fix_row_def overflow_def rescale_row_def
      time_vars_independent_def sum_row_def clip_row_def Let_def)

lemma time_row_sum_hours: "\<exists>s. time_row r ''Sum_Hours'' = Some s"
  by (simp add: time_row_def round_row_def fix_row_def overflow_def rescale_row_def
      time_vars_independent_def sum_row_def clip_row_def Let_def)

lemma budget_exact:
  fixes a b c d :: real
  assumes "0 \<le> a" "0 \<le> b" "0 \<le> c" "0 \<le> d"
  defines "s \<equiv> a + b + c + d"
  shows "a * scale s + b * scale s + c * scale s + d * scale s + (if 24 < s then 0 else 24 - s) = 24"
proof (cases "24 < s")
  case True
  then have "s \<noteq> 0" by simp
  have "a * scale s + b * scale s + c * scale s + d * scale s = (a + b + c + d) * scale s"
    by (simp add: distrib_right)
  also have "\<dots> = s * (24 / s)"
    using True by (simp add: scale_def s_def)
  also have "\<dots> = 24" using \<open>s \<noteq> 0\<close> by simp
  finally show ?thesis using True by simp
next
  case False
  then show ?thesis by (simp add: scale_def s_def)
qed

lemma budget_rounded:
  fixes a b c d :: real
  assumes "0 \<le> a" "0 \<le> b" "0 \<le> c" "0 \<le> d"
  defines "s \<equiv> a + b + c + d"
  shows "\<bar>np_round 1 (a * scale s) + np_round 1 (b * scale s) + np_round 1 (c * scale s)
          + np_round 1 (d * scale s) + np_round 1 (if 24 < s then 0 else 24 - s) - 24\<bar> \<le> 1/4"
proof -
  let ?p = "if 24 < s then 0 else 24 - s"
  note e = np_round_1_error
  have "a * scale s + b * scale s + c * scale s + d * scale s + ?p = 24"
    unfolding s_def by (rule budget_exact [OF assms(1-4)])
  moreover note e [of "a * scale s"] e [of "b * scale s"] e [of "c * scale s"] e [of "d * scale s"] e [of ?p]
  ultimately show ?thesis by linarith
qed

lemma scale_pos: "0 < scale s"
  by (simp add: scale_def)

subsection \<open>The later stages are maps over the rows\<close>

lemma numeric_round: "numeric v \<Longrightarrow> round_astype_int v = Inr (to_code v)"
  by (cases v rule: round_astype_int.cases) (simp_all add: numeric_def to_code_def)

lemma numeric_compare: "numeric v \<Longrightarrow> compare p v = Inr (holds p v)"
  by (cases "(p, v)" rule: compare.cases) (simp_all add: numeric_def holds_def)

lemma numeric_simps [simp]:
  "numeric (Some (FloatV x))" "numeric (Some (IntV i))" "\<not> numeric (Some (StrV s))" "\<not> numeric None"
  by (simp_all add: numeric_def)

lemma add_label_mem: "c \<in> set ls \<Longrightarrow> add_label c ls = ls"
  by (simp add: add_label_def)

lemma limpiar_gpa_ok:
  assumes "''GPA'' \<in> set (labels df)"
  shows "limpiar_gpa df = Inr \<lparr>labels = labels df, rows = map gpa_row (rows df)\<rparr>"
  using assms
  by (simp add: limpiar_gpa_def get_col_def set_col_def add_label_mem map2_same2 gpa_row_def)

lemma to_cells_eq: "to_cells df = \<lparr>labels = labels df, rows = map cells_row (rows df)\<rparr>"
  by (simp add: to_cells_def cells_row_def)

lemma limpiar_age_ok:
  assumes "''Age'' \<in> set (labels df)" and "\<And>r. r \<in> set (rows df) \<Longrightarrow> numeric (r ''Age'')"
  shows "limpiar_age df = Inr \<lparr>labels = labels df, rows = map age_row (rows df)\<rparr>"
proof -
  have "mapM round_astype_int (map (\<lambda>r. r ''Age'') (rows df))
          = Inr (map to_code (map (\<lambda>r. r ''Age'') (rows df)))"
    by (rule mapM_Inr) (auto simp: numeric_round assms(2))
  then show ?thesis
    using assms(1)
    by (simp add: limpiar_age_def get_col_def set_col_def add_label_mem map2_same2 age_row_def
        comp_def)
qed

lemma pd_clip_range:
  fixes lo hi x :: int
  assumes "lo \<le> hi"
  shows "lo \<le> pd_clip lo hi x" "pd_clip lo hi x \<le> hi"
  using assms by (simp_all add: pd_clip_def Let_def)

lemma inverse_transform_clipped:
  assumes "classes \<noteq> []"
  shows "inverse_transform classes (map (pd_clip 0 (int (length classes) - 1)) codes)
           = Inr (map (decode classes) codes)"
proof -
  have le: "(0::int) \<le> int (length classes) - 1"
    using assms by (cases classes) simp_all
  have "list_all (\<lambda>code. 0 \<le> code \<and> code < int (length classes))
          (map (pd_clip 0 (int (length classes) - 1)) codes)"
    using pd_clip_range [OF le] by (auto simp: list_all_iff intro: order.strict_trans1)
  then show ?thesis
    by (simp add: inverse_transform_def decode_def comp_def)
qed

lemma revertir_categoria_ok:
  assumes "col \<in> set (labels df)" and "\<And>r. r \<in> set (rows df) \<Longrightarrow> numeric (r col)"
    and "encoders df_seed col = Some classes" and "classes \<noteq> []"
  shows "revertir_categoria df_seed col df
           = Inr \<lparr>labels = labels df, rows = map (cat_row df_seed col) (rows df)\<rparr>"
proof -
  have "mapM round_astype_int (map (\<lambda>r. r col) (rows df))
          = Inr (map to_code (map (\<lambda>r. r col) (rows df)))"
    by (rule mapM_Inr) (auto simp: numeric_round assms(2))
  then show ?thesis
    using assms(1,3)
    by (simp add: revertir_categoria_def get_col_def set_col_def add_label_mem map2_same2
        cat_row_def comp_def inverse_transform_clipped [OF assms(4)])
qed

lemma cat_row_other: "c' \<noteq> col \<Longrightarrow> cat_row df_seed col r c' = r c'"
  by (simp add: cat_row_def split: option.splits)

lemma fold_cat_row_other: "c' \<notin> set cs \<Longrightarrow> fold (cat_row df_seed) cs r c' = r c'"
  by (induction cs arbitrary: r) (auto simp: cat_row_other)

lemma foldM_revertir_ok:
  assumes "distinct cs" and "set cs \<subseteq> set (labels df)"
    and "\<And>c. c \<in> set cs \<Longrightarrow> \<exists>classes. encoders df_seed c = Some classes \<and> classes \<noteq> []"
    and "\<And>r c. r \<in> set (rows df) \<Longrightarrow> c \<in> set cs \<Longrightarrow> numeric (r c)"
  shows "foldM (revertir_categoria df_seed) cs df
           = Inr \<lparr>labels = labels df, rows = map (fold (cat_row df_seed) cs) (rows df)\<rparr>"
  using assms
proof (induction cs arbitrary: df)
  case Nil
  then show ?case by simp
next
  case (Cons c cs)
  obtain classes where cl: "encoders df_seed c = Some classes" "classes \<noteq> []"
    using Cons.prems(3) [of c] by auto
  let ?df = "\<lparr>labels = labels df, rows = map (cat_row df_seed c) (rows df)\<rparr>"
  have step: "revertir_categoria df_seed c df = Inr ?df"
    by (rule revertir_categoria_ok [OF _ _ cl]) (use Cons.prems in auto)
  have "foldM (revertir_categoria df_seed) cs ?df
          = Inr \<lparr>labels = labels ?df, rows = map (fold (cat_row df_seed) cs) (rows ?df)\<rparr>"
  proof (rule Cons.IH)
    show "distinct cs" using Cons.prems(1) by simp
    show "set cs \<subseteq> set (labels ?df)" using Cons.prems(2) by simp
    show "\<exists>classes. encoders df_seed c' = Some classes \<and> classes \<noteq> []" if "c' \<in> set cs" for c'
      using Cons.prems(3) that by simp
    show "numeric (r c')" if "r \<in> set (rows ?df)" "c' \<in> set cs" for r c'
    proof -
      from that(1) obtain r0 where r0: "r0 \<in> set (rows df)" "r = cat_row df_seed c r0" by auto
      have "c' \<noteq> c" using that(2) Cons.prems(1) by auto
      then show ?thesis using r0 Cons.prems(4) [of r0 c'] that(2) by (simp add: cat_row_other)
    qed
  qed
  then show ?case by (simp add: step comp_def)
qed

lemma mapM_map_Inr:
  "(\<And>x. x \<in> set xs \<Longrightarrow> f (h x) = Inr (g x)) \<Longrightarrow> mapM f (map h xs) = Inr (map g xs)"
  by (induction xs) simp_all

lemma np_select_two:
  "np_select [map2 (\<or>) (map a xs) (map b xs), map2 (\<and>) (map c xs) (map d xs)] [v1, v2]
     (replicate (length xs) v3)
   = map (\<lambda>x. if a x \<or> b x then v1 else if c x \<and> d x then v2 else v3) xs"
  by (induction xs) simp_all

lemma regla_de_negocio_ok:
  assumes "''Sleep_Hours_Per_Day'' \<in> set (labels df)" "''Study_Hours_Per_Day'' \<in> set (labels df)"
    and "\<And>r. r \<in> set (rows df) \<Longrightarrow> numeric (r ''Sleep_Hours_Per_Day'')"
    and "\<And>r. r \<in> set (rows df) \<Longrightarrow> numeric (r ''Study_Hours_Per_Day'')"
  shows "regla_de_negocio df
           = Inr \<lparr>labels = add_label ''Stress_Level'' (labels df), rows = map stress_row (rows df)\<rparr>"
proof -
  have sl: "mapM (compare p) (map (\<lambda>r. r ''Sleep_Hours_Per_Day'') (rows df))
              = Inr (map (\<lambda>r. holds p (r ''Sleep_Hours_Per_Day'')) (rows df))" for p
    by (rule mapM_map_Inr) (simp add: numeric_compare assms(3))
  have st: "mapM (compare p) (map (\<lambda>r. r ''Study_Hours_Per_Day'') (rows df))
              = Inr (map (\<lambda>r. holds p (r ''Study_Hours_Per_Day'')) (rows df))" for p
    by (rule mapM_map_Inr) (simp add: numeric_compare assms(4))
  show ?thesis
    using assms(1,2)
    by (simp add: regla_de_negocio_def get_col_def sl st np_select_two set_col_def map2_same2
        stress_row_def stress_of_def comp_def del: np_select.simps)
qed

lemma reordenar_ok:
  assumes "set cols \<subseteq> set (labels df)"
  shows "reordenar cols df = Inr (map (\<lambda>r. map (\<lambda>c. (c, r c)) cols) (rows df))"
proof -
  have "filter (\<lambda>c. c \<notin> set (labels df)) cols = []"
    using assms by (auto simp: filter_empty_conv)
  then show ?thesis by (simp add: reordenar_def)
qed

subsection \<open>The columns of a well-formed seed\<close>

lemma time_vars_modelled: "set time_vars_independent \<subseteq> set (cols_a_modelar df)"
  by (simp add: cols_a_modelar_def)

lemma text_labels:
  "set (map fst (filter (\<lambda>(c, col). \<not> is_numeric col) df)) = {c. \<exists>col. (c, col) \<in> set df \<and> \<not> is_numeric col}"
  by force

lemma in_cols_categoricas:
  assumes "c \<in> set (cols_categoricas df)"
  shows "\<exists>col. (c, col) \<in> set df \<and> \<not> is_numeric col"
proof -
  let ?cs = "map fst (filter (\<lambda>(c, col). \<not> is_numeric col) df)"
  have "set (cols_categoricas df) \<subseteq> set ?cs"
    using set_remove1_subset [of "''Stress_Level''" ?cs]
    by (auto simp: cols_categoricas_def Let_def)
  then have "c \<in> set ?cs" using assms by blast
  then show ?thesis unfolding text_labels by blast
qed

lemma cols_categoricas_intro:
  assumes "(c, col) \<in> set df" "\<not> is_numeric col" "c \<noteq> ''Stress_Level''"
  shows "c \<in> set (cols_categoricas df)"
proof -
  let ?cs = "map fst (filter (\<lambda>(c, col). \<not> is_numeric col) df)"
  have "c \<in> set ?cs" unfolding text_labels using assms by blast
  then show ?thesis using assms(3) by (simp add: cols_categoricas_def Let_def)
qed

lemma distinct_cols_categoricas:
  assumes "distinct (map fst df)"
  shows "distinct (cols_categoricas df)"
  using assms by (simp add: cols_categoricas_def Let_def distinct_map_filter)

lemma stress_not_categorical:
  assumes "distinct (map fst df)"
  shows "''Stress_Level'' \<notin> set (cols_categoricas df)"
  using assms by (simp add: cols_categoricas_def Let_def distinct_map_filter)

lemma numeric_not_categorical:
  assumes "distinct (map fst df)" "numeric_column df c"
  shows "c \<notin> set (cols_categoricas df)"
proof
  assume "c \<in> set (cols_categoricas df)"
  then obtain col where col: "(c, col) \<in> set df" "\<not> is_numeric col"
    using in_cols_categoricas by blast
  then have "map_of df c = Some col" using assms(1) by simp
  then show False using assms(2) col(2) by (simp add: numeric_column_def)
qed

lemma in_other_numerics:
  assumes "(c, col) \<in> set df" "is_numeric col" "c \<notin> set time_vars_independent"
    "c \<noteq> ''Physical_Activity_Hours_Per_Day''" "c \<noteq> ''Student_ID''"
  shows "c \<in> set (other_numerics df)"
  using assms by (force simp: other_numerics_def cols_numericas_def)

lemma seed_columns_covered:
  "set (columnas_ordenadas df) \<subseteq> set (cols_a_modelar df)
      \<union> {''Physical_Activity_Hours_Per_Day'', ''Student_ID'', ''Stress_Level''}"
proof
  fix c assume "c \<in> set (columnas_ordenadas df)"
  then obtain col where col: "(c, col) \<in> set df"
    by (auto simp: columnas_ordenadas_def)
  show "c \<in> set (cols_a_modelar df)
      \<union> {''Physical_Activity_Hours_Per_Day'', ''Student_ID'', ''Stress_Level''}"
  proof (cases "is_numeric col")
    case True
    then show ?thesis
      using in_other_numerics [OF col True] by (auto simp: cols_a_modelar_def)
  next
    case False
    then show ?thesis
      using cols_categoricas_intro [OF col False] by (auto simp: cols_a_modelar_def)
  qed
qed

lemma label_modelled:
  assumes "c \<in> set (map fst df)" "c \<noteq> ''Physical_Activity_Hours_Per_Day''"
    "c \<noteq> ''Student_ID''" "c \<noteq> ''Stress_Level''"
  shows "c \<in> set (cols_a_modelar df)"
  using seed_columns_covered [of df] assms by (auto simp: columnas_ordenadas_def)

lemma fit_classes_set [simp]: "set (fit_classes values) = set values"
  by (simp add: fit_classes_def)

lemma fit_classes_nonempty: "values \<noteq> [] \<Longrightarrow> fit_classes values \<noteq> []"
  using fit_classes_set [of "values"] by (metis set_empty)

lemma seed_ok_distinct: "seed_ok df \<Longrightarrow> distinct (map fst df)"
  by (simp add: seed_ok_def)

lemma seed_ok_len: "seed_ok df \<Longrightarrow> (c, col) \<in> set df \<Longrightarrow> 2 \<le> col_len col"
  by (auto simp: seed_ok_def list_all_iff)

lemma seed_ok_hours:
  "seed_ok df \<Longrightarrow> c \<in> set time_vars_independent \<or> c = ''Physical_Activity_Hours_Per_Day''
     \<Longrightarrow> numeric_column df c"
  by (auto simp: seed_ok_def list_all_iff)

lemma seed_ok_labels: "seed_ok df \<Longrightarrow> ''GPA'' \<in> set (map fst df) \<and> ''Age'' \<in> set (map fst df)"
  by (simp add: seed_ok_def)

lemma seed_ok_encoders:
  assumes "seed_ok df" "c \<in> set (cols_categoricas df)"
  shows "\<exists>values. map_of df c = Some (StrCol values) \<and> values \<noteq> []
            \<and> encoders df c = Some (fit_classes values)"
proof -
  obtain col where col: "(c, col) \<in> set df" "\<not> is_numeric col"
    using in_cols_categoricas [OF assms(2)] by blast
  then obtain vs where v: "col = StrCol vs" by (cases col) simp_all
  have d: "distinct (map fst df)" using assms(1) by (rule seed_ok_distinct)
  have m: "map_of df c = Some (StrCol vs)" using col(1) d v by simp
  have "2 \<le> col_len col"
    using assms(1) col(1) by (rule seed_ok_len)
  then have "vs \<noteq> []" using v by auto
  then show ?thesis using m assms(2) by (simp add: encoders_def)
qed

lemma seed_ok_id: "seed_ok df \<Longrightarrow> \<exists>ids. map_of df ''Student_ID'' = Some (IntCol ids) \<and> ids \<noteq> []"
proof -
  assume ok: "seed_ok df"
  then obtain ids where ids: "map_of df ''Student_ID'' = Some (IntCol ids)"
    by (auto simp: seed_ok_def split: option.splits column.splits)
  then have "(''Student_ID'', IntCol ids) \<in> set df" by (rule map_of_SomeD)
  then have "2 \<le> col_len (IntCol ids)" using ok seed_ok_len by blast
  then show ?thesis using ids by auto
qed

lemma seed_ok_hours_not_categorical:
  assumes "seed_ok df"
    "c \<in> set time_vars_independent \<or> c = ''Physical_Activity_Hours_Per_Day''"
  shows "c \<notin> set (cols_categoricas df)" "numeric_column df c"
proof -
  show n: "numeric_column df c" using assms by (rule seed_ok_hours)
  show "c \<notin> set (cols_categoricas df)"
    using numeric_not_categorical [OF seed_ok_distinct [OF assms(1)] n] .
qed

lemma seed_ok_gpa_age:
  assumes "seed_ok df"
  shows "''GPA'' \<in> set (cols_a_modelar df)" "''Age'' \<in> set (cols_a_modelar df)"
  using seed_ok_labels [OF assms] by (simp_all add: label_modelled)

lemma seed_ok_line55:
  assumes "seed_ok df"
  shows "filter (\<lambda>c. c \<notin> set (columnas_ordenadas df)) (cols_a_modelar df) = []"
proof -
  have t: "set time_vars_independent \<subseteq> set (map fst df)"
  proof
    fix c assume c: "c \<in> set time_vars_independent"
    then have "numeric_column df c" using assms seed_ok_hours by blast
    then show "c \<in> set (map fst df)"
      by (auto simp: numeric_column_def split: option.splits dest!: map_of_SomeD intro: rev_image_eqI)
  qed
  have o: "set (other_numerics df) \<subseteq> set (map fst df)"
    by (auto simp: other_numerics_def cols_numericas_def)
  have "set (cols_categoricas df) \<subseteq> set (map fst df)"
    using in_cols_categoricas by (force intro: rev_image_eqI)
  with t o show ?thesis
    by (auto simp: filter_empty_conv cols_a_modelar_def columnas_ordenadas_def)
qed

subsection \<open>No stage loses a value\<close>

lemma clip_row_apply:
  "clip_row r c = (if c \<in> set time_vars_independent then map_option (clip_lower 0) (r c) else r c)"
  by (simp add: clip_row_def time_vars_independent_def)

lemma round_row_apply:
  "round_row r c = (if c \<in> set time_vars_independent \<or> c = ''Physical_Activity_Hours_Per_Day''
                    then map_option (np_round 1) (r c) else r c)"
  by (simp add: round_row_def time_vars_independent_def)

lemma rescale_row_apply:
  "rescale_row r c =
     (if c = ''Physical_Activity_Hours_Per_Day'' then Some 0
      else if c \<in> set time_vars_independent
           then times_opt (r c) (Option.bind (r ''Sum_Hours'') (np_divide 24))
           else r c)"
  by (simp add: rescale_row_def time_vars_independent_def Let_def)

lemma overflow_factor:
  assumes "overflow r"
  shows "\<exists>s. r ''Sum_Hours'' = Some s \<and> 24 < s
           \<and> Option.bind (r ''Sum_Hours'') (np_divide 24) = Some (24 / s)"
  using assms by (auto simp: overflow_def np_divide_def split: option.splits)

lemma fix_row_defined:
  assumes "r c \<noteq> None" "r ''Sum_Hours'' \<noteq> None"
  shows "fix_row r c \<noteq> None"
proof (cases "overflow r")
  case True
  then obtain s where "Option.bind (r ''Sum_Hours'') (np_divide 24) = Some (24 / s)"
    using overflow_factor by blast
  then show ?thesis using True assms
    by (auto simp: fix_row_def rescale_row_apply times_opt_def)
next
  case False
  then show ?thesis using assms by (auto simp: fix_row_def)
qed

lemma time_row_defined:
  assumes "r c \<noteq> None"
  shows "time_row r c \<noteq> None"
proof -
  have "clip_row r c \<noteq> None" using assms by (auto simp: clip_row_apply)
  then have "sum_row (clip_row r) c \<noteq> None" by (simp add: sum_row_def)
  then have "fix_row (sum_row (clip_row r)) c \<noteq> None"
    by (rule fix_row_defined) (simp add: sum_row_def)
  then show ?thesis by (auto simp: time_row_def round_row_apply)
qed

subsection \<open>One batch over a well-formed seed\<close>

lemma pre_age_numeric:
  assumes "r c \<noteq> None"
  shows "numeric (cells_row (gpa_row (time_row r)) c)"
proof -
  have "gpa_row (time_row r) c \<noteq> None"
    using time_row_defined [of r c] assms by (auto simp: gpa_row_def)
  then show ?thesis by (auto simp: cells_row_def)
qed

lemma age_row_numeric: "numeric (r c) \<Longrightarrow> numeric (age_row r c)"
  by (simp add: age_row_def)

lemma sample_row_defined: "c \<in> set cols \<Longrightarrow> sample_row rng cols k c \<noteq> None"
  by (simp add: sample_row_def)

lemma rows_sample_chunk:
  "rows (sample_chunk rng cols drawn n) = map (\<lambda>j. sample_row rng cols (drawn + j)) [0..<n]"
  by (simp add: sample_chunk_def sample_row_def)

lemma set_col_ids:
  "set_col c (map (\<lambda>k. Some (IntV k)) (py_range i (i + int n))) \<lparr>labels = ls, rows = map f [0..<n]\<rparr>
     = \<lparr>labels = add_label c ls, rows = map (\<lambda>j. (f j)(c \<mapsto> IntV (i + int j))) [0..<n]\<rparr>"
  by (simp add: set_col_def py_range_def map2_maps comp_def)

lemma generate_chunk_ok:
  assumes ok: "seed_ok df_seed"
    and id: "current_id st = IdInt i"
    and n: "min CHUNK_SIZE (TARGET_NEW_ROWS - rows_generated st) = int n"
  shows "generate_chunk df_seed TARGET_NEW_ROWS CHUNK_SIZE rng st =
     Inr \<lparr>rows_generated = rows_generated st + int n,
          chunk_counter = chunk_counter st + 1,
          current_id = IdInt (i + int n),
          output_csv = (output_csv st)
            \<lparr>appended := appended (output_csv st)
               @ map (\<lambda>j. generated_row df_seed rng (nat (rows_generated st) + j) (i + int j)) [0..<n]\<rparr>\<rparr>"
proof -
  let ?cols = "cols_a_modelar df_seed"
  let ?g = "nat (rows_generated st)"
  let ?raw = "sample_chunk rng ?cols ?g n"
  let ?time = "redondeo_estetico (corregir_desbordamientos (calcular_suma (evitar_negativos ?raw)))"
  let ?s = "\<lambda>j. sample_row rng ?cols (?g + j)"
  define L where "L = labels ?time"
  let ?L = L
  have L: "set ?L = set ?cols \<union> {''Sum_Hours'', ''Physical_Activity_Hours_Per_Day''}"
    using time_vars_modelled [of df_seed]
    by (auto simp: L_def set_labels_time_phase sample_chunk_def)
  have cats_sub: "set (cols_categoricas df_seed) \<subseteq> set ?cols"
    by (auto simp: cols_a_modelar_def)
  have hours_sub: "''Sleep_Hours_Per_Day'' \<in> set ?cols" "''Study_Hours_Per_Day'' \<in> set ?cols"
    by (simp_all add: cols_a_modelar_def time_vars_independent_def)
  have R: "rows ?time = map (\<lambda>j. time_row (?s j)) [0..<n]"
    by (simp add: rows_time_phase rows_sample_chunk comp_def)
  have T: "?time = \<lparr>labels = ?L, rows = map (\<lambda>j. time_row (?s j)) [0..<n]\<rparr>"
    using R by (simp add: L_def)
  let ?gpa = "\<lparr>labels = ?L, rows = map (\<lambda>j. gpa_row (time_row (?s j))) [0..<n]\<rparr>"
  have gpa: "limpiar_gpa \<lparr>labels = ?L, rows = map (\<lambda>j. time_row (?s j)) [0..<n]\<rparr> = Inr ?gpa"
    using seed_ok_gpa_age(1) [OF ok] limpiar_gpa_ok [of "\<lparr>labels = ?L, rows = map (\<lambda>j. time_row (?s j)) [0..<n]\<rparr>"]
    by (simp add: L comp_def)
  let ?pre = "\<lambda>j. cells_row (gpa_row (time_row (?s j)))"
  have cells: "to_cells ?gpa = \<lparr>labels = ?L, rows = map ?pre [0..<n]\<rparr>"
    by (simp add: to_cells_eq comp_def)
  have num: "numeric (?pre j c)" if "c \<in> set ?cols" for j c
    by (rule pre_age_numeric) (simp add: sample_row_defined that)
  let ?age = "\<lparr>labels = ?L, rows = map (\<lambda>j. age_row (?pre j)) [0..<n]\<rparr>"
  have age: "limpiar_age (to_cells ?gpa) = Inr ?age"
    unfolding cells
    using limpiar_age_ok [of "\<lparr>labels = ?L, rows = map ?pre [0..<n]\<rparr>"]
      seed_ok_gpa_age(2) [OF ok] num
    by (auto simp: L comp_def)
  let ?cats = "cols_categoricas df_seed"
  let ?dec = "\<lambda>j. fold (cat_row df_seed) ?cats (age_row (?pre j))"
  let ?cat = "\<lparr>labels = ?L, rows = map ?dec [0..<n]\<rparr>"
  have cat: "revertir_categorias df_seed ?age = Inr ?cat"
  proof -
    have "foldM (revertir_categoria df_seed) ?cats ?age
            = Inr \<lparr>labels = labels ?age, rows = map (fold (cat_row df_seed) ?cats) (rows ?age)\<rparr>"
    proof (rule foldM_revertir_ok)
      show "distinct ?cats" using distinct_cols_categoricas seed_ok_distinct [OF ok] by blast
      show "set ?cats \<subseteq> set (labels ?age)" using cats_sub by (auto simp: L)
      show "\<exists>classes. encoders df_seed c = Some classes \<and> classes \<noteq> []" if "c \<in> set ?cats" for c
        using seed_ok_encoders [OF ok that] fit_classes_nonempty by auto
      show "numeric (r c)" if "r \<in> set (rows ?age)" "c \<in> set ?cats" for r c
        using that num [of c] cats_sub by (auto intro!: age_row_numeric)
    qed
    then show ?thesis by (simp add: revertir_categorias_def comp_def)
  qed
  have hour_num: "numeric (?dec j c)" if "c \<in> set time_vars_independent" for j c
  proof -
    have "c \<notin> set ?cats" using seed_ok_hours_not_categorical(1) [OF ok] that by blast
    then have "?dec j c = age_row (?pre j) c" by (rule fold_cat_row_other)
    moreover have "c \<in> set ?cols" using that time_vars_modelled by blast
    ultimately show ?thesis using num [of c j] by (simp add: age_row_numeric)
  qed
  let ?LS = "add_label ''Stress_Level'' ?L"
  let ?rep = "\<lambda>j. repaired_row df_seed rng (?g + j)"
  let ?stress = "\<lparr>labels = ?LS, rows = map ?rep [0..<n]\<rparr>"
  have stress: "regla_de_negocio ?cat = Inr ?stress"
  proof -
    have "regla_de_negocio ?cat
            = Inr \<lparr>labels = add_label ''Stress_Level'' (labels ?cat), rows = map stress_row (rows ?cat)\<rparr>"
    proof (rule regla_de_negocio_ok)
      show "''Sleep_Hours_Per_Day'' \<in> set (labels ?cat)" "''Study_Hours_Per_Day'' \<in> set (labels ?cat)"
        using hours_sub by (simp_all add: L)
      show "numeric (r ''Sleep_Hours_Per_Day'')" if "r \<in> set (rows ?cat)" for r
        using that hour_num [of "''Sleep_Hours_Per_Day''"] by (auto simp: time_vars_independent_def)
      show "numeric (r ''Study_Hours_Per_Day'')" if "r \<in> set (rows ?cat)" for r
        using that hour_num [of "''Study_Hours_Per_Day''"] by (auto simp: time_vars_independent_def)
    qed
    then show ?thesis by (simp add: comp_def repaired_row_def)
  qed
  let ?ids = "\<lparr>labels = add_label ''Student_ID'' ?LS,
              rows = map (\<lambda>j. (?rep j)(''Student_ID'' \<mapsto> IntV (i + int j))) [0..<n]\<rparr>"
  have ids: "set_col ''Student_ID'' (map (\<lambda>k. Some (IntV k)) (py_range i (i + int n))) ?stress = ?ids"
    by (rule set_col_ids)
  have out: "reordenar (columnas_ordenadas df_seed) ?ids
      = Inr (map (\<lambda>j. generated_row df_seed rng (?g + j) (i + int j)) [0..<n])"
  proof -
    have "set (columnas_ordenadas df_seed) \<subseteq> set (labels ?ids)"
      using seed_columns_covered [of df_seed] by (auto simp: L)
    then show ?thesis
      by (simp add: reordenar_ok generated_row_def comp_def)
  qed
  show ?thesis
    unfolding generate_chunk_def Let_def n
    by (simp only: T gpa age cat stress ids out id bindE_Inr id_val.case of_nat_less_0_iff if_False
        nat_int)
qed

subsection \<open>The loop and \<^verbatim>\<open>main\<close> over a well-formed seed\<close>

lemma batch_rows_append:
  "batch_rows df rng first 0 a @ map (\<lambda>j. generated_row df rng (a + j) (first + int a + int j)) [0..<n]
     = batch_rows df rng first 0 (a + n)"
proof -
  have "map (\<lambda>j. generated_row df rng (a + j) (first + int a + int j)) [0..<n]
          = map (\<lambda>k. generated_row df rng k (first + int k)) (map (\<lambda>j. a + j) [0..<n])"
    by (simp add: comp_def add.assoc)
  also have "map (\<lambda>j. a + j) [0..<n] = [a..<a + n]"
    by (simp add: map_add_upt add.commute)
  finally show ?thesis
    by (simp add: batch_rows_def upt_add_eq_append [of 0 a n, simplified])
qed

lemma generation_loop_ok:
  assumes ok: "seed_ok df" and chunk: "0 < CHUNK"
  shows "0 \<le> g \<Longrightarrow> g \<le> TARGET \<Longrightarrow>
     \<exists>cc'. generation_loop df TARGET CHUNK rng
        \<lparr>rows_generated = g, chunk_counter = cc, current_id = IdInt (first + g),
         output_csv = \<lparr>seed_table = df, appended = batch_rows df rng first 0 (nat g)\<rparr>\<rparr>
      = Some (Completed
        \<lparr>rows_generated = TARGET, chunk_counter = cc', current_id = IdInt (first + TARGET),
         output_csv = \<lparr>seed_table = df, appended = batch_rows df rng first 0 (nat TARGET)\<rparr>\<rparr>)"
proof (induction "nat (TARGET - g)" arbitrary: g cc rule: less_induct)
  case less
  let ?st = "\<lparr>rows_generated = g, chunk_counter = cc, current_id = IdInt (first + g),
         output_csv = \<lparr>seed_table = df, appended = batch_rows df rng first 0 (nat g)\<rparr>\<rparr>"
  show ?case
  proof (cases "g < TARGET")
    case False
    then have "g = TARGET" using less.prems by simp
    then show ?thesis
      by (subst generation_loop.simps) simp
  next
    case True
    define m where "m = min CHUNK (TARGET - g)"
    have m: "0 < m" "g + m \<le> TARGET" using True chunk by (simp_all add: m_def)
    define n where "n = nat m"
    have n: "m = int n" using m by (simp add: n_def)
    have step: "generate_chunk df TARGET CHUNK rng ?st =
       Inr \<lparr>rows_generated = g + m, chunk_counter = cc + 1, current_id = IdInt (first + (g + m)),
            output_csv = \<lparr>seed_table = df, appended = batch_rows df rng first 0 (nat (g + m))\<rparr>\<rparr>"
    proof -
      have a: "batch_rows df rng first 0 (nat g)
                 @ map (\<lambda>j. generated_row df rng (nat g + j) (first + g + int j)) [0..<n]
               = batch_rows df rng first 0 (nat (g + m))"
        using batch_rows_append [of df rng first "nat g" n] less.prems(1) n
        by (simp add: nat_add_distrib)
      have "min CHUNK (TARGET - rows_generated ?st) = int n"
        using n by (simp add: m_def)
      from generate_chunk_ok [OF ok _ this, of "first + g" rng]
      show ?thesis using a n by (simp add: add.assoc)
    qed
    have "\<exists>cc'. generation_loop df TARGET CHUNK rng
        \<lparr>rows_generated = g + m, chunk_counter = cc + 1, current_id = IdInt (first + (g + m)),
         output_csv = \<lparr>seed_table = df, appended = batch_rows df rng first 0 (nat (g + m))\<rparr>\<rparr>
      = Some (Completed
        \<lparr>rows_generated = TARGET, chunk_counter = cc', current_id = IdInt (first + TARGET),
         output_csv = \<lparr>seed_table = df, appended = batch_rows df rng first 0 (nat TARGET)\<rparr>\<rparr>)"
      by (rule less.hyps) (use m less.prems in auto)
    moreover have "g + m \<noteq> 0" using m less.prems by simp
    ultimately show ?thesis
      using True by (subst generation_loop.simps) (simp add: step)
  qed
qed

lemma main_ok:
  assumes ok: "seed_ok df" and chunk: "0 < CHUNK" and target: "0 \<le> TARGET"
    and ids: "map_of df ''Student_ID'' = Some (IntCol ids)"
  shows "\<exists>cc. main df TARGET CHUNK rng = Some (Completed
        \<lparr>rows_generated = TARGET, chunk_counter = cc,
         current_id = IdInt (Max (set ids) + 1 + TARGET),
         output_csv = \<lparr>seed_table = df,
                       appended = batch_rows df rng (Max (set ids) + 1) 0 (nat TARGET)\<rparr>\<rparr>)"
proof -
  have ne: "ids \<noteq> []" using seed_ok_id [OF ok] ids by auto
  have "batch_rows df rng (Max (set ids) + 1) 0 (nat 0) = []" by (simp add: batch_rows_def)
  with generation_loop_ok [OF ok chunk, of 0 TARGET rng 0 "Max (set ids) + 1"] target
  show ?thesis
    by (simp add: main_def seed_ok_line55 [OF ok] ids ne)
qed

subsection \<open>The fields of a generated row\<close>

lemma seed_ok_example: "seed_ok example_seed"
  by (simp add: seed_ok_def example_seed_def numeric_column_def time_vars_independent_def)

lemma generated_rows_main:
  assumes "seed_ok df" "0 < CHUNK" "0 \<le> TARGET" "map_of df ''Student_ID'' = Some (IntCol ids)"
  shows "generated_rows (main df TARGET CHUNK rng)
           = batch_rows df rng (Max (set ids) + 1) 0 (nat TARGET)"
  using main_ok [OF assms, of rng] by (auto simp: generated_rows_def)

lemma generated_rows_cases:
  assumes "seed_ok df" "0 < CHUNK" "0 \<le> TARGET"
    and "row \<in> set (generated_rows (main df TARGET CHUNK rng))"
  obtains k ident where "row = generated_row df rng k ident"
proof -
  obtain ids where "map_of df ''Student_ID'' = Some (IntCol ids)"
    using seed_ok_id [OF assms(1)] by blast
  from generated_rows_main [OF assms(1-3) this, of rng] assms(4)
  show ?thesis using that by (auto simp: batch_rows_def)
qed

lemma map_of_fields:
  "c \<in> set cols \<Longrightarrow> map_of (map (\<lambda>c. (c, f c)) cols) c = Some (f c)"
  by (induction cols) auto

lemma numeric_column_label: "numeric_column df c \<Longrightarrow> c \<in> set (columnas_ordenadas df)"
  by (auto simp: numeric_column_def columnas_ordenadas_def split: option.splits
      dest!: map_of_SomeD intro: rev_image_eqI)

lemma age_row_other: "c \<noteq> ''Age'' \<Longrightarrow> age_row r c = r c"
  by (simp add: age_row_def)

lemma gpa_row_other: "c \<noteq> ''GPA'' \<Longrightarrow> gpa_row r c = r c"
  by (simp add: gpa_row_def)

lemma stress_row_other: "c \<noteq> ''Stress_Level'' \<Longrightarrow> stress_row r c = r c"
  by (simp add: stress_row_def)

lemma repaired_row_hour:
  assumes ok: "seed_ok df"
    and c: "c \<in> set time_vars_independent \<or> c = ''Physical_Activity_Hours_Per_Day''"
  shows "repaired_row df rng k c
           = map_option FloatV (time_row (sample_row rng (cols_a_modelar df) k) c)"
proof -
  have n: "c \<noteq> ''Stress_Level''" "c \<noteq> ''Age''" "c \<noteq> ''GPA''"
    using c by (auto simp: time_vars_independent_def)
  have "c \<notin> set (cols_categoricas df)"
    using seed_ok_hours_not_categorical(1) [OF ok c] .
  then show ?thesis
    by (simp add: repaired_row_def stress_row_other fold_cat_row_other age_row_other n
        cells_row_def gpa_row_other)
qed

lemma generated_row_hour:
  assumes ok: "seed_ok df"
    and c: "c \<in> set time_vars_independent \<or> c = ''Physical_Activity_Hours_Per_Day''"
  shows "map_of (generated_row df rng k ident) c
           = Some (map_option FloatV (time_row (sample_row rng (cols_a_modelar df) k) c))"
proof -
  have "c \<in> set (columnas_ordenadas df)"
    using seed_ok_hours [OF ok c] by (rule numeric_column_label)
  moreover have "c \<noteq> ''Student_ID''" using c by (auto simp: time_vars_independent_def)
  ultimately show ?thesis
    by (simp add: generated_row_def map_of_fields repaired_row_hour [OF ok c])
qed

lemma sample_row_hours:
  "sample_row rng (cols_a_modelar df) k ''Study_Hours_Per_Day'' = Some (rng k ''Study_Hours_Per_Day'')"
  "sample_row rng (cols_a_modelar df) k ''Extracurricular_Hours_Per_Day'' = Some (rng k ''Extracurricular_Hours_Per_Day'')"
  "sample_row rng (cols_a_modelar df) k ''Sleep_Hours_Per_Day'' = Some (rng k ''Sleep_Hours_Per_Day'')"
  "sample_row rng (cols_a_modelar df) k ''Social_Hours_Per_Day'' = Some (rng k ''Social_Hours_Per_Day'')"
  by (simp_all add: sample_row_def cols_a_modelar_def time_vars_independent_def)

lemmas sampled_hours = time_row_hours [OF sample_row_hours]

lemma generated_row_hours:
  assumes ok: "seed_ok df"
  shows "map_of (generated_row df rng k ident) ''Study_Hours_Per_Day''
           = Some (Some (FloatV (repaired_hour rng k ''Study_Hours_Per_Day'')))"
    and "map_of (generated_row df rng k ident) ''Extracurricular_Hours_Per_Day''
           = Some (Some (FloatV (repaired_hour rng k ''Extracurricular_Hours_Per_Day'')))"
    and "map_of (generated_row df rng k ident) ''Sleep_Hours_Per_Day''
           = Some (Some (FloatV (repaired_hour rng k ''Sleep_Hours_Per_Day'')))"
    and "map_of (generated_row df rng k ident) ''Social_Hours_Per_Day''
           = Some (Some (FloatV (repaired_hour rng k ''Social_Hours_Per_Day'')))"
    and "map_of (generated_row df rng k ident) ''Physical_Activity_Hours_Per_Day''
           = Some (Some (FloatV (repaired_physical rng k)))"
  unfolding repaired_hour_def repaired_physical_def clipped_sum_def clipped_def
  by (simp_all add: generated_row_hour [OF ok] time_vars_independent_def sampled_hours)

lemma repaired_budget:
  "\<bar>repaired_hour rng k ''Study_Hours_Per_Day'' + repaired_hour rng k ''Extracurricular_Hours_Per_Day''
    + repaired_hour rng k ''Sleep_Hours_Per_Day'' + repaired_hour rng k ''Social_Hours_Per_Day''
    + repaired_physical rng k - 24\<bar> \<le> 1/4"
  unfolding repaired_hour_def repaired_physical_def clipped_sum_def
  by (rule budget_rounded) (simp_all add: clipped_def)

lemma repaired_nonneg: "0 \<le> repaired_hour rng k c" "0 \<le> repaired_physical rng k"
  using scale_pos [of "clipped_sum rng k"]
  by (auto simp: repaired_hour_def repaired_physical_def clipped_def intro!: np_round_nonneg)

lemma some_generated_row:
  assumes "seed_ok df" "0 < CHUNK" "0 < TARGET"
  shows "\<exists>row. row \<in> set (generated_rows (main df TARGET CHUNK rng))"
proof -
  obtain ids where ids: "map_of df ''Student_ID'' = Some (IntCol ids)"
    using seed_ok_id [OF assms(1)] by blast
  have "0 \<le> TARGET" using assms(3) by simp
  from generated_rows_main [OF assms(1,2) this ids, of rng] assms(3)
  show ?thesis by (auto simp: batch_rows_def intro!: exI [of _ 0])
qed

lemma stress_of_floats:
  "stress_of (Some (FloatV sleep)) (Some (FloatV study)) = spec_stress_rule sleep study"
  by (simp add: stress_of_def holds_def spec_stress_rule_def)

lemma repaired_row_stress:
  assumes ok: "seed_ok df"
  shows "repaired_row df rng k ''Stress_Level''
           = Some (StrV (spec_stress_rule (repaired_hour rng k ''Sleep_Hours_Per_Day'')
                                     (repaired_hour rng k ''Study_Hours_Per_Day'')))"
proof -
  let ?x = "fold (cat_row df) (cols_categoricas df)
              (age_row (cells_row (gpa_row (time_row (sample_row rng (cols_a_modelar df) k)))))"
  have r: "repaired_row df rng k = stress_row ?x" by (simp add: repaired_row_def)
  have "?x c = repaired_row df rng k c" if "c \<noteq> ''Stress_Level''" for c
    using that by (simp add: r stress_row_other)
  then have x: "?x ''Sleep_Hours_Per_Day'' = Some (FloatV (repaired_hour rng k ''Sleep_Hours_Per_Day''))"
    "?x ''Study_Hours_Per_Day'' = Some (FloatV (repaired_hour rng k ''Study_Hours_Per_Day''))"
    unfolding repaired_hour_def clipped_sum_def clipped_def
    by (simp_all add: repaired_row_hour [OF ok] time_vars_independent_def sampled_hours)
  show ?thesis
    unfolding r stress_row_def by (simp add: x stress_of_floats)
qed

lemma generated_row_stress:
  assumes ok: "seed_ok df" and l: "''Stress_Level'' \<in> set (columnas_ordenadas df)"
  shows "map_of (generated_row df rng k ident) ''Stress_Level''
           = Some (Some (StrV (spec_stress_rule (repaired_hour rng k ''Sleep_Hours_Per_Day'')
                                           (repaired_hour rng k ''Study_Hours_Per_Day''))))"
  using l by (simp add: generated_row_def map_of_fields repaired_row_stress [OF ok])

lemma decode_in_classes:
  assumes "classes \<noteq> []"
  shows "decode classes code \<in> set classes"
proof -
  have le: "(0::int) \<le> int (length classes) - 1"
    using assms by (cases classes) simp_all
  have "nat (pd_clip 0 (int (length classes) - 1) code) < length classes"
    using pd_clip_range [OF le, of code] by linarith
  then show ?thesis by (simp add: decode_def)
qed

lemma fold_cat_row_decoded:
  assumes "c \<in> set cs" and "encoders df c = Some classes"
  shows "\<exists>code. fold (cat_row df) cs r c = Some (StrV (decode classes code))"
  using assms(1)
proof (induction cs arbitrary: r)
  case Nil
  then show ?case by simp
next
  case (Cons x xs)
  show ?case
  proof (cases "c \<in> set xs")
    case True
    then show ?thesis using Cons.IH [of "cat_row df x r"] by simp
  next
    case False
    then have cx: "c = x" using Cons.prems by simp
    have "fold (cat_row df) xs (cat_row df x r) c = cat_row df x r c"
      using False by (rule fold_cat_row_other)
    also have "\<dots> = Some (StrV (decode classes (to_code (r c))))"
      using assms(2) cx by (simp add: cat_row_def)
    finally show ?thesis by auto
  qed
qed

lemma generated_row_category:
  assumes ok: "seed_ok df" and c: "c \<in> set (cols_categoricas df)"
  shows "\<exists>observed v. map_of df c = Some (StrCol observed)
           \<and> map_of (generated_row df rng k ident) c = Some (Some (StrV v)) \<and> v \<in> set observed"
proof -
  obtain observed where o: "map_of df c = Some (StrCol observed)" "observed \<noteq> []"
    "encoders df c = Some (fit_classes observed)"
    using seed_ok_encoders [OF ok c] by blast
  obtain code where code: "fold (cat_row df) (cols_categoricas df)
      (age_row (cells_row (gpa_row (time_row (sample_row rng (cols_a_modelar df) k))))) c
        = Some (StrV (decode (fit_classes observed) code))"
    using fold_cat_row_decoded [OF c o(3)] by blast
  have d: "distinct (map fst df)" using ok by (rule seed_ok_distinct)
  have n1: "c \<noteq> ''Stress_Level''" using stress_not_categorical [OF d] c by auto
  obtain ids where "map_of df ''Student_ID'' = Some (IntCol ids)"
    using seed_ok_id [OF ok] by blast
  then have "numeric_column df ''Student_ID''" by (simp add: numeric_column_def)
  then have n2: "c \<noteq> ''Student_ID''" using numeric_not_categorical [OF d] c by auto
  have "(c, StrCol observed) \<in> set df" using o(1) by (rule map_of_SomeD)
  then have l: "c \<in> set (columnas_ordenadas df)"
    by (auto simp: columnas_ordenadas_def intro: rev_image_eqI)
  have "decode (fit_classes observed) code \<in> set observed"
    using decode_in_classes [OF fit_classes_nonempty [OF o(2)], of code] by simp
  then show ?thesis
    using o(1) l n1 n2
    by (simp add: generated_row_def map_of_fields repaired_row_def stress_row_other code)
qed

lemma decode_never_raises:
  assumes ok: "seed_ok df" and c: "c \<in> set (cols_categoricas df)"
  shows "\<exists>classes. encoders df c = Some classes
           \<and> (\<forall>codes. \<exists>strs. inverse_transform classes
                   (map (pd_clip 0 (int (length classes) - 1)) codes) = Inr strs
                 \<and> set strs \<subseteq> set classes)"
proof -
  obtain observed where o: "observed \<noteq> []" "encoders df c = Some (fit_classes observed)"
    using seed_ok_encoders [OF ok c] by blast
  have ne: "fit_classes observed \<noteq> []" using o(1) by (rule fit_classes_nonempty)
  show ?thesis
    using decode_in_classes [OF ne]
    by (auto simp: o(2) inverse_transform_clipped [OF ne])
qed

subsection \<open>Counters, missing columns and an empty target\<close>



lemma modelled_in_seed:
  "set (other_numerics df) \<subseteq> set (columnas_ordenadas df)"
  "set (cols_categoricas df) \<subseteq> set (columnas_ordenadas df)"
proof -
  show "set (other_numerics df) \<subseteq> set (columnas_ordenadas df)"
    by (auto simp: other_numerics_def cols_numericas_def columnas_ordenadas_def)
  show "set (cols_categoricas df) \<subseteq> set (columnas_ordenadas df)"
    using in_cols_categoricas by (force simp: columnas_ordenadas_def intro: rev_image_eqI)
qed

lemma line55_filter:
  "filter (\<lambda>c. c \<notin> set (columnas_ordenadas df)) (cols_a_modelar df)
     = filter (\<lambda>c. c \<notin> set (columnas_ordenadas df)) time_vars_independent"
proof -
  have "filter (\<lambda>c. c \<notin> set (columnas_ordenadas df)) (other_numerics df) = []"
    "filter (\<lambda>c. c \<notin> set (columnas_ordenadas df)) (cols_categoricas df) = []"
    using modelled_in_seed [of df] by (auto simp: filter_empty_conv)
  then show ?thesis by (simp add: cols_a_modelar_def)
qed



lemma generation_loop_done:
  assumes "\<not> rows_generated st < TARGET"
  shows "generation_loop df TARGET CHUNK rng st = Some (Completed st)"
  using assms by (subst generation_loop.simps) simp

lemma main_target_zero:
  assumes "set time_vars_independent \<subseteq> set (columnas_ordenadas df)"
    and "map_of df ''Student_ID'' = Some ids" and "max_plus_one ids = Inr first_id"
  shows "main df 0 CHUNK rng
           = Some (Completed \<lparr>rows_generated = 0, chunk_counter = 0, current_id = first_id,
                output_csv = \<lparr>seed_table = df, appended = []\<rparr>\<rparr>)"
proof -
  have "filter (\<lambda>c. c \<notin> set (columnas_ordenadas df)) time_vars_independent = []"
    using assms(1) by (auto simp: filter_empty_conv)
  then show ?thesis
    by (simp add: main_def line55_filter assms(2,3) generation_loop_done)
qed

subsection \<open>A row of a sampled chunk before and after lines 88 to 98\<close>

lemma sample_row_time:
  assumes "set time_vars_independent \<subseteq> set cols"
  shows "sample_row rng cols k ''Study_Hours_Per_Day'' = Some (rng k ''Study_Hours_Per_Day'')"
    "sample_row rng cols k ''Extracurricular_Hours_Per_Day'' = Some (rng k ''Extracurricular_Hours_Per_Day'')"
    "sample_row rng cols k ''Sleep_Hours_Per_Day'' = Some (rng k ''Sleep_Hours_Per_Day'')"
    "sample_row rng cols k ''Social_Hours_Per_Day'' = Some (rng k ''Social_Hours_Per_Day'')"
  using assms by (simp_all add: sample_row_def time_vars_independent_def)

lemma presum_sampled:
  assumes "set time_vars_independent \<subseteq> set cols"
  shows "sum_row (clip_row (sample_row rng cols k)) =
     (sample_row rng cols k)
       (''Study_Hours_Per_Day'' \<mapsto> clipped rng k ''Study_Hours_Per_Day'',
        ''Extracurricular_Hours_Per_Day'' \<mapsto> clipped rng k ''Extracurricular_Hours_Per_Day'',
        ''Sleep_Hours_Per_Day'' \<mapsto> clipped rng k ''Sleep_Hours_Per_Day'',
        ''Social_Hours_Per_Day'' \<mapsto> clipped rng k ''Social_Hours_Per_Day'',
        ''Sum_Hours'' \<mapsto> clipped_sum rng k)"
  unfolding clipped_def clipped_sum_def
  by (rule presum_row [OF sample_row_time [OF assms]])

lemma clipped_sum_nonneg: "0 \<le> clipped_sum rng k"
  by (simp add: clipped_sum_def clipped_def)

lemma presum_chunk_row:
  assumes "j < n"
  shows "rows (calcular_suma (evitar_negativos (sample_chunk rng cols drawn n))) ! j
           = sum_row (clip_row (sample_row rng cols (drawn + j)))"
  using assms by (simp add: rows_calcular_suma rows_evitar_negativos rows_sample_chunk)

lemma corrected_chunk_row:
  assumes "j < n"
  shows "rows (corregir_desbordamientos
                 (calcular_suma (evitar_negativos (sample_chunk rng cols drawn n)))) ! j
           = fix_row (sum_row (clip_row (sample_row rng cols (drawn + j))))"
  using assms
  by (simp add: rows_corregir_desbordamientos rows_calcular_suma rows_evitar_negativos
      rows_sample_chunk)


lemma presum_overflow:
  assumes "set time_vars_independent \<subseteq> set cols"
  shows "overflow (sum_row (clip_row (sample_row rng cols k))) \<longleftrightarrow> 24 < clipped_sum rng k"
  by (simp add: presum_sampled [OF assms] overflow_def)

lemma presum_sum_hours:
  assumes "set time_vars_independent \<subseteq> set cols"
  shows "sum_row (clip_row (sample_row rng cols k)) ''Sum_Hours'' = Some (clipped_sum rng k)"
  by (simp add: presum_sampled [OF assms])

lemma presum_hours:
  assumes "set time_vars_independent \<subseteq> set cols" and "c \<in> set time_vars_independent"
  shows "sum_row (clip_row (sample_row rng cols k)) c = Some (clipped rng k c)"
  using assms(2) by (auto simp: presum_sampled [OF assms(1)] time_vars_independent_def)







lemma generated_rows_target_zero: "generated_rows (main df 0 CHUNK rng) = []"
  unfolding main_def Let_def
  by (auto simp: generated_rows_def generation_loop_done split: list.splits option.splits sum.splits)


section \<open>The claims\<close>

text \<open>
  Claim C1.  Every row of a run over a well-formed seed stores its five hours as floats, and
  the four sampled hours plus the physical-activity hours add up to 24 within 0.5.  The
  five values are rounded to one decimal one by one after the budget is closed, so each is
  off by at most 0.05 and the sum by at most 0.25.
\<close>

theorem C1_time_budget:
  assumes "seed_ok df_seed" and "0 < CHUNK_SIZE" and "0 \<le> TARGET_NEW_ROWS"
  shows "\<forall>row \<in> set (generated_rows (main df_seed TARGET_NEW_ROWS CHUNK_SIZE rng)).
           \<exists>study extra sleep social physical.
             map_of row ''Study_Hours_Per_Day'' = Some (Some (FloatV study))
           \<and> map_of row ''Extracurricular_Hours_Per_Day'' = Some (Some (FloatV extra))
           \<and> map_of row ''Sleep_Hours_Per_Day'' = Some (Some (FloatV sleep))
           \<and> map_of row ''Social_Hours_Per_Day'' = Some (Some (FloatV social))
           \<and> map_of row ''Physical_Activity_Hours_Per_Day'' = Some (Some (FloatV physical))
           \<and> \<bar>study + extra + sleep + social + physical - 24\<bar> \<le> 1/2"
proof
  fix row assume "row \<in> set (generated_rows (main df_seed TARGET_NEW_ROWS CHUNK_SIZE rng))"
  then obtain k ident where row: "row = generated_row df_seed rng k ident"
    using generated_rows_cases [OF assms] by blast
  note h = generated_row_hours [OF assms(1), of rng k ident]
  have b: "\<bar>repaired_hour rng k ''Study_Hours_Per_Day''
            + repaired_hour rng k ''Extracurricular_Hours_Per_Day''
            + repaired_hour rng k ''Sleep_Hours_Per_Day''
            + repaired_hour rng k ''Social_Hours_Per_Day''
            + repaired_physical rng k - 24\<bar> \<le> 1/2"
    using repaired_budget [of rng k] by linarith
  show "\<exists>study extra sleep social physical.
             map_of row ''Study_Hours_Per_Day'' = Some (Some (FloatV study))
           \<and> map_of row ''Extracurricular_Hours_Per_Day'' = Some (Some (FloatV extra))
           \<and> map_of row ''Sleep_Hours_Per_Day'' = Some (Some (FloatV sleep))
           \<and> map_of row ''Social_Hours_Per_Day'' = Some (Some (FloatV social))
           \<and> map_of row ''Physical_Activity_Hours_Per_Day'' = Some (Some (FloatV physical))
           \<and> \<bar>study + extra + sleep + social + physical - 24\<bar> \<le> 1/2"
    unfolding row h using b by simp
qed

theorem C1_time_budget_witness:
  "seed_ok example_seed \<and> (0::int) < 2 \<and> (0::int) \<le> 3
   \<and> (\<exists>row \<in> set (generated_rows (main example_seed 3 2 example_rng)).
        \<exists>study extra sleep social physical.
             map_of row ''Study_Hours_Per_Day'' = Some (Some (FloatV study))
           \<and> map_of row ''Extracurricular_Hours_Per_Day'' = Some (Some (FloatV extra))
           \<and> map_of row ''Sleep_Hours_Per_Day'' = Some (Some (FloatV sleep))
           \<and> map_of row ''Social_Hours_Per_Day'' = Some (Some (FloatV social))
           \<and> map_of row ''Physical_Activity_Hours_Per_Day'' = Some (Some (FloatV physical))
           \<and> \<bar>study + extra + sleep + social + physical - 24\<bar> \<le> 1/2)"
  using C1_time_budget [OF seed_ok_example, of 2 3 example_rng]
    some_generated_row [OF seed_ok_example, of 2 3 example_rng] seed_ok_example
  by auto

text \<open>
  Claim C2.  In every row of a run over a well-formed seed that has the label column, the
  stored label is what the ordered rule gives on the sleep and study hours stored in that
  same row: \<open>spec_stress_rule\<close> states the rule in the words of the specification, first match
  first.
\<close>

theorem C2_stress_label:
  assumes "seed_ok df_seed" and "''Stress_Level'' \<in> set (columnas_ordenadas df_seed)"
    and "0 < CHUNK_SIZE" and "0 \<le> TARGET_NEW_ROWS"
  shows "\<forall>row \<in> set (generated_rows (main df_seed TARGET_NEW_ROWS CHUNK_SIZE rng)).
           \<exists>sleep study.
             map_of row ''Sleep_Hours_Per_Day'' = Some (Some (FloatV sleep))
           \<and> map_of row ''Study_Hours_Per_Day'' = Some (Some (FloatV study))
           \<and> map_of row ''Stress_Level'' = Some (Some (StrV (spec_stress_rule sleep study)))"
proof
  fix row assume "row \<in> set (generated_rows (main df_seed TARGET_NEW_ROWS CHUNK_SIZE rng))"
  then obtain k ident where row: "row = generated_row df_seed rng k ident"
    using generated_rows_cases [OF assms(1,3,4)] by blast
  show "\<exists>sleep study.
             map_of row ''Sleep_Hours_Per_Day'' = Some (Some (FloatV sleep))
           \<and> map_of row ''Study_Hours_Per_Day'' = Some (Some (FloatV study))
           \<and> map_of row ''Stress_Level'' = Some (Some (StrV (spec_stress_rule sleep study)))"
    unfolding row
    by (simp add: generated_row_hours [OF assms(1)] generated_row_stress [OF assms(1,2)])
qed

theorem C2_stress_label_witness:
  "seed_ok example_seed \<and> ''Stress_Level'' \<in> set (columnas_ordenadas example_seed)
   \<and> (0::int) < 2 \<and> (0::int) \<le> 3
   \<and> (\<exists>row \<in> set (generated_rows (main example_seed 3 2 example_rng)).
        \<exists>sleep study.
             map_of row ''Sleep_Hours_Per_Day'' = Some (Some (FloatV sleep))
           \<and> map_of row ''Study_Hours_Per_Day'' = Some (Some (FloatV study))
           \<and> map_of row ''Stress_Level'' = Some (Some (StrV (spec_stress_rule sleep study))))"
proof -
  have l: "''Stress_Level'' \<in> set (columnas_ordenadas example_seed)"
    by (simp add: columnas_ordenadas_def example_seed_def)
  have n: "(0::int) < 2" "(0::int) \<le> 3" by simp_all
  obtain row where row: "row \<in> set (generated_rows (main example_seed 3 2 example_rng))"
    using some_generated_row [OF seed_ok_example, of 2 3 example_rng] by auto
  from C2_stress_label [OF seed_ok_example l n, of example_rng] row
  obtain sleep study where
    "map_of row ''Sleep_Hours_Per_Day'' = Some (Some (FloatV sleep))"
    "map_of row ''Study_Hours_Per_Day'' = Some (Some (FloatV study))"
    "map_of row ''Stress_Level'' = Some (Some (StrV (spec_stress_rule sleep study)))"
    by blast
  with row seed_ok_example l n show ?thesis by blast
qed

text \<open>
  Claim C3.  In every row of a run over a well-formed seed the four sampled hours and the
  physical-activity hours are non-negative, after every repair stage and the rounding.
\<close>

theorem C3_hours_nonnegative:
  assumes "seed_ok df_seed" and "0 < CHUNK_SIZE" and "0 \<le> TARGET_NEW_ROWS"
  shows "\<forall>row \<in> set (generated_rows (main df_seed TARGET_NEW_ROWS CHUNK_SIZE rng)).
           \<exists>study extra sleep social physical.
             map_of row ''Study_Hours_Per_Day'' = Some (Some (FloatV study))
           \<and> map_of row ''Extracurricular_Hours_Per_Day'' = Some (Some (FloatV extra))
           \<and> map_of row ''Sleep_Hours_Per_Day'' = Some (Some (FloatV sleep))
           \<and> map_of row ''Social_Hours_Per_Day'' = Some (Some (FloatV social))
           \<and> map_of row ''Physical_Activity_Hours_Per_Day'' = Some (Some (FloatV physical))
           \<and> 0 \<le> study \<and> 0 \<le> extra \<and> 0 \<le> sleep \<and> 0 \<le> social \<and> 0 \<le> physical"
proof
  fix row assume "row \<in> set (generated_rows (main df_seed TARGET_NEW_ROWS CHUNK_SIZE rng))"
  then obtain k ident where row: "row = generated_row df_seed rng k ident"
    using generated_rows_cases [OF assms] by blast
  note h = generated_row_hours [OF assms(1), of rng k ident]
  show "\<exists>study extra sleep social physical.
             map_of row ''Study_Hours_Per_Day'' = Some (Some (FloatV study))
           \<and> map_of row ''Extracurricular_Hours_Per_Day'' = Some (Some (FloatV extra))
           \<and> map_of row ''Sleep_Hours_Per_Day'' = Some (Some (FloatV sleep))
           \<and> map_of row ''Social_Hours_Per_Day'' = Some (Some (FloatV social))
           \<and> map_of row ''Physical_Activity_Hours_Per_Day'' = Some (Some (FloatV physical))
           \<and> 0 \<le> study \<and> 0 \<le> extra \<and> 0 \<le> sleep \<and> 0 \<le> social \<and> 0 \<le> physical"
    unfolding row h by (simp add: repaired_nonneg)
qed

theorem C3_hours_nonnegative_witness:
  "seed_ok example_seed \<and> (0::int) < 2 \<and> (0::int) \<le> 3
   \<and> (\<exists>row \<in> set (generated_rows (main example_seed 3 2 example_rng)).
        \<exists>study extra sleep social physical.
             map_of row ''Study_Hours_Per_Day'' = Some (Some (FloatV study))
           \<and> map_of row ''Extracurricular_Hours_Per_Day'' = Some (Some (FloatV extra))
           \<and> map_of row ''Sleep_Hours_Per_Day'' = Some (Some (FloatV sleep))
           \<and> map_of row ''Social_Hours_Per_Day'' = Some (Some (FloatV social))
           \<and> map_of row ''Physical_Activity_Hours_Per_Day'' = Some (Some (FloatV physical))
           \<and> 0 \<le> study \<and> 0 \<le> extra \<and> 0 \<le> sleep \<and> 0 \<le> social \<and> 0 \<le> physical)"
  using C3_hours_nonnegative [OF seed_ok_example, of 2 3 example_rng]
    some_generated_row [OF seed_ok_example, of 2 3 example_rng] seed_ok_example
  by auto

text \<open>
  Claim C4.  In every row of a run over a well-formed seed, each categorical column (a text
  column other than the label) holds a string that the seed has in that column.  The code
  is clipped into the range of the encoder's classes before the lookup, so
  \<^verbatim>\<open>inverse_transform\<close> returns on every list of codes.
\<close>

theorem C4_categories_from_seed:
  assumes "seed_ok df_seed" and "0 < CHUNK_SIZE" and "0 \<le> TARGET_NEW_ROWS"
  shows "(\<forall>row \<in> set (generated_rows (main df_seed TARGET_NEW_ROWS CHUNK_SIZE rng)).
            \<forall>col \<in> set (cols_categoricas df_seed).
              \<exists>observed v. map_of df_seed col = Some (StrCol observed)
                \<and> map_of row col = Some (Some (StrV v)) \<and> v \<in> set observed)
       \<and> (\<forall>col \<in> set (cols_categoricas df_seed).
            \<exists>classes. encoders df_seed col = Some classes
              \<and> (\<forall>codes. \<exists>strs.
                     inverse_transform classes (map (pd_clip 0 (int (length classes) - 1)) codes)
                       = Inr strs
                   \<and> set strs \<subseteq> set classes))"
proof (intro conjI ballI)
  fix row col
  assume "row \<in> set (generated_rows (main df_seed TARGET_NEW_ROWS CHUNK_SIZE rng))"
    and col: "col \<in> set (cols_categoricas df_seed)"
  then obtain k ident where row: "row = generated_row df_seed rng k ident"
    using generated_rows_cases [OF assms] by blast
  show "\<exists>observed v. map_of df_seed col = Some (StrCol observed)
                \<and> map_of row col = Some (Some (StrV v)) \<and> v \<in> set observed"
    unfolding row by (rule generated_row_category [OF assms(1) col])
next
  fix col assume "col \<in> set (cols_categoricas df_seed)"
  then show "\<exists>classes. encoders df_seed col = Some classes
              \<and> (\<forall>codes. \<exists>strs.
                     inverse_transform classes (map (pd_clip 0 (int (length classes) - 1)) codes)
                       = Inr strs
                   \<and> set strs \<subseteq> set classes)"
    by (rule decode_never_raises [OF assms(1)])
qed

theorem C4_categories_from_seed_witness:
  "seed_ok example_seed \<and> (0::int) < 2 \<and> (0::int) \<le> 3
   \<and> ''Gender'' \<in> set (cols_categoricas example_seed)
   \<and> (\<exists>row \<in> set (generated_rows (main example_seed 3 2 example_rng)).
        \<exists>v. map_of row ''Gender'' = Some (Some (StrV v)) \<and> v \<in> set [''Male'', ''Female''])
   \<and> (\<exists>strs. inverse_transform (fit_classes [''Male'', ''Female''])
                 (map (pd_clip 0 (int (length (fit_classes [''Male'', ''Female''])) - 1)) [-7, 0, 1, 9])
               = Inr strs)"
proof -
  have g: "''Gender'' \<in> set (cols_categoricas example_seed)"
    by (simp add: cols_categoricas_def example_seed_def)
  have m: "map_of example_seed ''Gender'' = Some (StrCol [''Male'', ''Female''])"
    by (simp add: example_seed_def)
  have e: "encoders example_seed ''Gender'' = Some (fit_classes [''Male'', ''Female''])"
    using g by (simp add: encoders_def m)
  have n: "(0::int) < 2" "(0::int) \<le> 3" by simp_all
  note c = C4_categories_from_seed [OF seed_ok_example n, of example_rng]
  obtain row where row: "row \<in> set (generated_rows (main example_seed 3 2 example_rng))"
    using some_generated_row [OF seed_ok_example, of 2 3 example_rng] by auto
  from c row g obtain observed v where
    "map_of example_seed ''Gender'' = Some (StrCol observed)"
    "map_of row ''Gender'' = Some (Some (StrV v))" "v \<in> set observed"
    by blast
  then have 1: "\<exists>v. map_of row ''Gender'' = Some (Some (StrV v)) \<and> v \<in> set [''Male'', ''Female'']"
    using m by auto
  from c g obtain classes where cl:
    "encoders example_seed ''Gender'' = Some classes"
    "\<forall>codes. \<exists>strs. inverse_transform classes (map (pd_clip 0 (int (length classes) - 1)) codes)
        = Inr strs \<and> set strs \<subseteq> set classes"
    by blast
  have "classes = fit_classes [''Male'', ''Female'']" using cl(1) e by simp
  with cl(2) have 2: "\<exists>strs. inverse_transform (fit_classes [''Male'', ''Female''])
                 (map (pd_clip 0 (int (length (fit_classes [''Male'', ''Female''])) - 1)) [-7, 0, 1, 9])
               = Inr strs"
    by blast
  from 1 2 row g n seed_ok_example show ?thesis by blast
qed










text \<open>
  Claim C9.  With a target of zero rows the loop stops before its first batch: no row is
  generated, whatever the seed and the chunk size, and when the seed passes lines 55 and 69
  the run returns with both counters at zero, the identifier counter at its initial value
  and the output file holding the seed table and nothing else.
\<close>

theorem C9_target_zero:
  "generated_rows (main df_seed 0 CHUNK_SIZE rng) = []
   \<and> (set time_vars_independent \<subseteq> set (columnas_ordenadas df_seed)
        \<and> map_of df_seed ''Student_ID'' = Some ids \<and> max_plus_one ids = Inr first_id \<longrightarrow>
      main df_seed 0 CHUNK_SIZE rng
        = Some (Completed \<lparr>rows_generated = 0, chunk_counter = 0, current_id = first_id,
             output_csv = \<lparr>seed_table = df_seed, appended = []\<rparr>\<rparr>))"
  using generated_rows_target_zero [of df_seed CHUNK_SIZE rng]
    main_target_zero [of df_seed ids first_id CHUNK_SIZE rng]
  by blast

theorem C9_target_zero_witness:
  "set time_vars_independent \<subseteq> set (columnas_ordenadas example_seed)
   \<and> map_of example_seed ''Student_ID'' = Some (IntCol [1, 2])
   \<and> max_plus_one (IntCol [1, 2]) = Inr (IdInt 3)
   \<and> generated_rows (main example_seed 0 2 example_rng) = []
   \<and> main example_seed 0 2 example_rng
        = Some (Completed \<lparr>rows_generated = 0, chunk_counter = 0, current_id = IdInt 3,
             output_csv = \<lparr>seed_table = example_seed, appended = []\<rparr>\<rparr>)"
proof -
  have 1: "set time_vars_independent \<subseteq> set (columnas_ordenadas example_seed)"
    by (simp add: columnas_ordenadas_def example_seed_def time_vars_independent_def)
  have 2: "map_of example_seed ''Student_ID'' = Some (IntCol [1, 2])"
    by (simp add: example_seed_def)
  have 3: "max_plus_one (IntCol [1, 2]) = Inr (IdInt 3)" by simp
  from C9_target_zero [of example_seed 2 example_rng "IntCol [1, 2]" "IdInt 3"] 1 2 3
  show ?thesis by blast
qed

text \<open>
  Claim C10.  For each row of a sampled chunk, \<open>Sum_Hours\<close> is the non-negative sum of the
  clipped hours.  Lines 88 to 98 send the row through \<open>rescale_row\<close>, the only place that
  divides, exactly when that sum exceeds 24; the divisor is then above 24, the division is
  defined and the factor lies strictly between 0 and 1.  Every other row, one with sum 0
  included, only gets its physical-activity hours set to 24 minus the sum.  No hour of a
  repaired row is a NaN or an infinity.
\<close>

theorem C10_division_guarded:
  assumes "set time_vars_independent \<subseteq> set cols" and "j < n"
  shows "let df = calcular_suma (evitar_negativos (sample_chunk rng cols drawn n));
             before = rows df ! j;
             after = rows (corregir_desbordamientos df) ! j;
             s = clipped_sum rng (drawn + j)
         in before ''Sum_Hours'' = Some s \<and> 0 \<le> s
          \<and> after = (if 24 < s then rescale_row before
                      else before(''Physical_Activity_Hours_Per_Day'' \<mapsto> 24 - s))
          \<and> (24 < s \<longrightarrow> Option.bind (before ''Sum_Hours'') (np_divide 24) = Some (24 / s)
                         \<and> 0 < 24 / s \<and> 24 / s < 1)
          \<and> (s = 0 \<longrightarrow> after ''Physical_Activity_Hours_Per_Day'' = Some 24)
          \<and> (\<forall>c \<in> set time_vars_independent \<union> {''Physical_Activity_Hours_Per_Day''}.
                after c \<noteq> None)"
proof -
  let ?k = "drawn + j"
  let ?r = "sum_row (clip_row (sample_row rng cols ?k))"
  let ?s = "clipped_sum rng ?k"
  have 1: "?r ''Sum_Hours'' = Some ?s" by (rule presum_sum_hours [OF assms(1)])
  have 2: "0 \<le> ?s" by (rule clipped_sum_nonneg)
  have 3: "fix_row ?r = (if 24 < ?s then rescale_row ?r
                         else ?r(''Physical_Activity_Hours_Per_Day'' \<mapsto> 24 - ?s))"
    by (simp add: fix_row_def presum_overflow [OF assms(1)] 1)
  have 4: "Option.bind (?r ''Sum_Hours'') (np_divide 24) = Some (24 / ?s) \<and> 0 < 24 / ?s \<and> 24 / ?s < 1"
    if "24 < ?s"
    using that by (simp add: 1 np_divide_def)
  have 5: "fix_row ?r ''Physical_Activity_Hours_Per_Day'' = Some 24" if "?s = 0"
    using that by (simp add: 3)
  have 6: "fix_row ?r c \<noteq> None"
    if "c \<in> set time_vars_independent \<union> {''Physical_Activity_Hours_Per_Day''}" for c
  proof (cases "c = ''Physical_Activity_Hours_Per_Day''")
    case True
    then show ?thesis by (simp add: 3 rescale_row_apply)
  next
    case False
    then have c: "c \<in> set time_vars_independent" using that by simp
    show ?thesis
      by (rule fix_row_defined) (simp_all add: presum_hours [OF assms(1) c] 1)
  qed
  show ?thesis
    unfolding Let_def presum_chunk_row [OF assms(2)] corrected_chunk_row [OF assms(2)]
    using 1 2 3 4 5 6 by blast
qed

theorem C10_division_guarded_witness:
  "set time_vars_independent \<subseteq> set time_vars_independent \<and> (0::nat) < 1
   \<and> clipped_sum (\<lambda>k c. 0) 0 = 0
   \<and> (let after = rows (corregir_desbordamientos (calcular_suma (evitar_negativos
                      (sample_chunk (\<lambda>k c. 0) time_vars_independent 0 1)))) ! 0
      in after ''Physical_Activity_Hours_Per_Day'' = Some 24
       \<and> after ''Study_Hours_Per_Day'' \<noteq> None)
   \<and> 24 < clipped_sum example_rng 0
   \<and> (let before = rows (calcular_suma (evitar_negativos
                      (sample_chunk example_rng time_vars_independent 0 1))) ! 0
      in Option.bind (before ''Sum_Hours'') (np_divide 24) = Some (24 / 32))"
proof -
  have z0: "clipped_sum (\<lambda>k c. 0) 0 = 0"
    by (simp add: clipped_sum_def clipped_def)
  have z: "clipped_sum (\<lambda>k c. 0) (0 + 0) = 0" by (simp add: z0)
  have s0: "clipped_sum example_rng 0 = 32"
    by (simp add: clipped_sum_def clipped_def example_rng_def)
  have s: "24 < clipped_sum example_rng (0 + 0)" by (simp add: s0)
  have t: "set time_vars_independent \<subseteq> set time_vars_independent" by simp
  have n: "(0::nat) < 1" by simp
  have st: "''Study_Hours_Per_Day''
      \<in> set time_vars_independent \<union> {''Physical_Activity_Hours_Per_Day''}"
    by (simp add: time_vars_independent_def)
  from C10_division_guarded [OF t n, of "\<lambda>k c. 0" 0] z st
  have a: "(rows (corregir_desbordamientos (calcular_suma (evitar_negativos
                      (sample_chunk (\<lambda>k c. 0) time_vars_independent 0 1)))) ! 0)
             ''Physical_Activity_Hours_Per_Day'' = Some 24"
    "(rows (corregir_desbordamientos (calcular_suma (evitar_negativos
                      (sample_chunk (\<lambda>k c. 0) time_vars_independent 0 1)))) ! 0)
             ''Study_Hours_Per_Day'' \<noteq> None"
    unfolding Let_def by blast+
  from C10_division_guarded [OF t n, of example_rng 0] s
  have "Option.bind ((rows (calcular_suma (evitar_negativos
                      (sample_chunk example_rng time_vars_independent 0 1))) ! 0) ''Sum_Hours'')
             (np_divide 24) = Some (24 / clipped_sum example_rng (0 + 0))"
    unfolding Let_def by blast
  then have b: "Option.bind ((rows (calcular_suma (evitar_negativos
                      (sample_chunk example_rng time_vars_independent 0 1))) ! 0) ''Sum_Hours'')
             (np_divide 24) = Some (24 / 32)"
    by (simp add: s0)
  have h: "24 < clipped_sum example_rng 0" by (simp add: s0)
  from a b z0 h t n show ?thesis unfolding Let_def by blast
qed

end
